theory Spec2Isabelle
  imports Main "HOL-Library.Sublist"
begin

section \<open>Python strings and paths\<close>

text \<open>
  Strings are lists of characters.  The text handled by \<^verbatim>\<open>deployer.py\<close> (flag values,
  file names, whitelist lines) is taken to be ASCII, so \<^verbatim>\<open>str.lower\<close> maps
  \<^verbatim>\<open>A-Z\<close> to \<^verbatim>\<open>a-z\<close> and \<^verbatim>\<open>str.strip\<close> removes the ASCII white space
  (codes 9-13 and 28-32) at both ends.
\<close>

definition char_lower :: "char \<Rightarrow> char" where
  "char_lower c =
     (let n = (of_char c :: nat) in if 65 \<le> n \<and> n \<le> 90 then char_of (n + 32) else c)"

definition str_lower :: "string \<Rightarrow> string" where
  "str_lower s = map char_lower s"

definition is_space :: "char \<Rightarrow> bool" where
  "is_space c = (let n = (of_char c :: nat) in (9 \<le> n \<and> n \<le> 13) \<or> (28 \<le> n \<and> n \<le> 32))"

definition str_strip :: "string \<Rightarrow> string" where
  "str_strip s = rev (dropWhile is_space (rev (dropWhile is_space s)))"

definition str_endswith :: "string \<Rightarrow> string \<Rightarrow> bool" where
  "str_endswith s suf = suffix suf s"

text \<open>\<^verbatim>\<open>s.split(sep)\<close> for a one-character separator: never an empty list.\<close>

fun str_split :: "char \<Rightarrow> string \<Rightarrow> string list" where
  "str_split sep [] = [[]]"
| "str_split sep (c # cs) =
     (if c = sep then [] # str_split sep cs
      else (case str_split sep cs of
              [] \<Rightarrow> [[c]]
            | p # ps \<Rightarrow> (c # p) # ps))"

text \<open>
  Iterating over a file opened in text mode: the lines, each with its terminator
  (\<^verbatim>\<open>\n\<close>, \<^verbatim>\<open>\r\n\<close> or \<^verbatim>\<open>\r\<close>, all read as \<^verbatim>\<open>\n\<close>); a last line
  without terminator is yielded when it is not empty.  The flag says that the character
  before was a carriage return.
\<close>

fun py_lines :: "bool \<Rightarrow> string \<Rightarrow> string \<Rightarrow> string list" where
  "py_lines cr acc [] = (if acc = [] then [] else [acc])"
| "py_lines cr acc (c # cs) =
     (if c = CHR 0x0A then
        (if cr then py_lines False acc cs else (acc @ [CHR 0x0A]) # py_lines False [] cs)
      else if c = CHR 0x0D then (acc @ [CHR 0x0A]) # py_lines True [] cs
      else py_lines False (acc @ [c]) cs)"

definition file_lines :: "string \<Rightarrow> string list" where
  "file_lines text = py_lines False [] text"

text \<open>\<^verbatim>\<open>str(n)\<close> for a count.\<close>

definition digit_char :: "nat \<Rightarrow> char" where
  "digit_char d = char_of (48 + d)"

fun str_nat :: "nat \<Rightarrow> string" where
  "str_nat n = (if n < 10 then [digit_char n] else str_nat (n div 10) @ [digit_char (n mod 10)])"

declare str_nat.simps [simp del]

definition str_bool :: "bool \<Rightarrow> string" where
  "str_bool b = (if b then ''True'' else ''False'')"

text \<open>\<^verbatim>\<open>os.path.join\<close> and \<^verbatim>\<open>os.path.basename\<close> of \<^verbatim>\<open>posixpath\<close>.\<close>

definition os_path_join :: "string \<Rightarrow> string \<Rightarrow> string" where
  "os_path_join a b =
     (if b \<noteq> [] \<and> hd b = CHR ''/'' then b
      else if a = [] \<or> last a = CHR ''/'' then a @ b
      else a @ ''/'' @ b)"

definition os_path_basename :: "string \<Rightarrow> string" where
  "os_path_basename p = rev (takeWhile (\<lambda>c. c \<noteq> CHR ''/'') (rev p))"

text \<open>
  \<^verbatim>\<open>os.path.relpath(os.path.join(root, file), input_folder)\<close> for a \<^verbatim>\<open>root\<close> that
  \<^verbatim>\<open>os.walk(input_folder)\<close> yields: the names of the directories from the input folder
  down to \<^verbatim>\<open>root\<close>, then the file name, separated by slashes.  The walk below keeps
  those directory names beside each root.
\<close>

fun join_rel :: "string list \<Rightarrow> string" where
  "join_rel [] = ''.''"
| "join_rel [x] = x"
| "join_rel (x # y # ys) = x @ ''/'' @ join_rel (y # ys)"

definition os_path_relpath :: "string list \<Rightarrow> string \<Rightarrow> string" where
  "os_path_relpath rel file = join_rel (rel @ [file])"

section \<open>Values, exceptions and events\<close>

datatype json =
    JNull
  | JBool bool
  | JNum int
  | JStr string
  | JArr "json list"
  | JObj "(string \<times> json) list"

text \<open>Truth value of a decoded JSON value in an \<^verbatim>\<open>if\<close>.\<close>

fun truthy :: "json \<Rightarrow> bool" where
  "truthy JNull = False"
| "truthy (JBool b) = b"
| "truthy (JNum n) = (n \<noteq> 0)"
| "truthy (JStr s) = (s \<noteq> [])"
| "truthy (JArr xs) = (xs \<noteq> [])"
| "truthy (JObj kvs) = (kvs \<noteq> [])"

datatype exn_class =
    FileNotFoundError
  | PermissionError
  | IsADirectoryError
  | OSError
  | ValueError
  | TypeError
  | AttributeError
  | UnboundLocalError
  | OtherException

text \<open>
  An instance of \<^verbatim>\<open>Exception\<close> is its class and message.  What ends a computation
  early is such an exception, or the \<^verbatim>\<open>SystemExit\<close> that \<^verbatim>\<open>sys.exit\<close> and \<^verbatim>\<open>exit\<close>
  raise, which carries the exit code and is not an \<^verbatim>\<open>Exception\<close>.
\<close>

datatype exn = Exn exn_class string

datatype abort = Raised exn | SystemExit nat

fun is_OSError :: "exn \<Rightarrow> bool" where
  "is_OSError (Exn FileNotFoundError m) = True"
| "is_OSError (Exn PermissionError m) = True"
| "is_OSError (Exn IsADirectoryError m) = True"
| "is_OSError (Exn OSError m) = True"
| "is_OSError e = False"

fun exn_str :: "exn \<Rightarrow> string" where
  "exn_str (Exn c m) = m"

datatype level = INFO | ERROR

text \<open>An archive entry: a file with its name and content, or a directory entry.\<close>

datatype zip_entry = FileEntry string string | DirEntry string

text \<open>The calls of \<^verbatim>\<open>sesamclient.Connection\<close> that the program makes.\<close>

datatype call =
    GetHealth
  | PutEnvVars json
  | PostSecrets json
  | PutSecrets json
  | UploadConfig "zip_entry list" bool

datatype event = Log level string | Call call

text \<open>
  A computation yields an exception or a result, and the events (log records and node
  calls) it produced, in order.
\<close>

type_synonym 'a res = "(abort + 'a) \<times> event list"

definition py_return :: "'a \<Rightarrow> 'a res" where
  "py_return x = (Inr x, [])"

definition py_raise :: "exn \<Rightarrow> 'a res" where
  "py_raise e = (Inl (Raised e), [])"

definition sys_exit :: "nat \<Rightarrow> 'a res" where
  "sys_exit code = (Inl (SystemExit code), [])"

definition after :: "event list \<Rightarrow> 'a res \<Rightarrow> 'a res" where
  "after t m = (fst m, t @ snd m)"

definition py_bind :: "'a res \<Rightarrow> ('a \<Rightarrow> 'b res) \<Rightarrow> 'b res" where
  "py_bind m f = (case m of (Inl e, t) \<Rightarrow> (Inl e, t) | (Inr x, t) \<Rightarrow> after t (f x))"

definition py_then :: "unit res \<Rightarrow> 'b res \<Rightarrow> 'b res" where
  "py_then m k = py_bind m (\<lambda>_. k)"

definition logger_info :: "string \<Rightarrow> unit res" where
  "logger_info msg = (Inr (), [Log INFO msg])"

definition logger_error :: "string \<Rightarrow> unit res" where
  "logger_error msg = (Inr (), [Log ERROR msg])"

definition quote :: "string \<Rightarrow> string" where
  "quote s = [CHR 0x27] @ s @ [CHR 0x27]"

section \<open>The world outside the program\<close>

text \<open>
  A node of the file system as the process sees it: a file with its content (\<open>None\<close>
  when the process may not read it) or a directory with its entries.
\<close>

datatype fs_node = File "string option" | Dir "(string \<times> fs_node) list"

text \<open>
  What \<^verbatim>\<open>sesamclient.Connection\<close> answers: an exception, or the decoded response (for
  the uploads, the text that \<^verbatim>\<open>str\<close> makes of it, which is all the program uses).
\<close>

record node_api =
  api_get_health :: "exn + json"
  api_put_env_vars :: "json \<Rightarrow> exn + string"
  api_post_secrets :: "json \<Rightarrow> exn + string"
  api_put_secrets :: "json \<Rightarrow> exn + string"
  api_upload_config :: "zip_entry list \<Rightarrow> bool \<Rightarrow> exn + string"

text \<open>
  Everything the program reads from outside, as parameters:
  \<^item> \<open>environ\<close>: \<^verbatim>\<open>os.environ\<close>;
  \<^item> \<open>lookup\<close>: the node that a path given in the environment (secrets file, variables
    file, config folder) names, \<open>None\<close> when nothing exists there;
  \<^item> \<open>path_exists\<close>: \<^verbatim>\<open>os.path.exists\<close> on the path that a whitelist line names;
  \<^item> \<open>zip_open\<close>: the exception, if any, of creating the archive file for writing;
  \<^item> \<open>json_loads\<close>, \<open>b64decode\<close>, \<open>py_str\<close>: the library functions \<^verbatim>\<open>json.load\<close>,
    \<^verbatim>\<open>base64.b64decode\<close> and \<^verbatim>\<open>str\<close> (\<open>Inl\<close> carries the message of the exception);
  \<^item> \<open>connection\<close>: the outcome of constructing \<^verbatim>\<open>sesamclient.Connection\<close>.
  Text files are taken to decode; directories are taken to be listable.
\<close>

record world =
  environ :: "string \<Rightarrow> string option"
  lookup :: "string \<Rightarrow> fs_node option"
  path_exists :: "string \<Rightarrow> bool"
  zip_open :: "string \<Rightarrow> exn option"
  json_loads :: "string \<Rightarrow> string + json"
  b64decode :: "string \<Rightarrow> string + string"
  py_str :: "json \<Rightarrow> string"
  connection :: "exn + node_api"

definition fs_child :: "fs_node option \<Rightarrow> string \<Rightarrow> fs_node option" where
  "fs_child d name = (case d of Some (Dir es) \<Rightarrow> map_of es name | _ \<Rightarrow> None)"

text \<open>\<^verbatim>\<open>open(path)\<close> followed by reading all of it.\<close>

fun open_read :: "string \<Rightarrow> fs_node \<Rightarrow> exn + string" where
  "open_read path (File (Some text)) = Inr text"
| "open_read path (File None) =
     Inl (Exn PermissionError (''[Errno 13] Permission denied: '' @ quote path))"
| "open_read path (Dir es) =
     Inl (Exn IsADirectoryError (''[Errno 21] Is a directory: '' @ quote path))"

section \<open>Packaging: \<^verbatim>\<open>create_zipped_config\<close>\<close>

text \<open>The loop over the lines of the whitelist file (source lines 132-135).\<close>

fun whitelist_loop :: "world \<Rightarrow> string \<Rightarrow> string list \<Rightarrow> string set \<Rightarrow> string set" where
  "whitelist_loop w input_folder [] whitelist_files = whitelist_files"
| "whitelist_loop w input_folder (line # lines) whitelist_files =
     (let line' = str_strip line in
      if path_exists w (os_path_join input_folder line')
      then whitelist_loop w input_folder lines (insert line' whitelist_files)
      else whitelist_loop w input_folder lines whitelist_files)"

text \<open>The whitelist mode block (source lines 127-135).\<close>

definition read_whitelist :: "world \<Rightarrow> string \<Rightarrow> fs_node option \<Rightarrow> string set res" where
  "read_whitelist w input_folder tree =
     (let whitelist_path =
            os_path_join (os_path_join input_folder ''deployment'') ''whitelist.txt''
      in after [Log INFO (''Creating config using '' @ whitelist_path)]
           (case fs_child (fs_child tree ''deployment'') ''whitelist.txt'' of
              None \<Rightarrow> py_return {}
            | Some n \<Rightarrow>
                (case open_read whitelist_path n of
                   Inl e \<Rightarrow> py_raise e
                 | Inr text \<Rightarrow> py_return (whitelist_loop w input_folder (file_lines text) {}))))"

text \<open>
  \<^verbatim>\<open>ZipFile.write(filename, arcname)\<close>: a file is read and stored under \<open>arcname\<close>; a
  directory becomes a directory entry named \<open>arcname/\<close>.
\<close>

fun zipf_write :: "string \<Rightarrow> fs_node \<Rightarrow> string \<Rightarrow> exn + zip_entry" where
  "zipf_write filename (File (Some content)) arcname = Inr (FileEntry arcname content)"
| "zipf_write filename (File None) arcname =
     Inl (Exn PermissionError (''[Errno 13] Permission denied: '' @ quote filename))"
| "zipf_write filename (Dir es) arcname = Inr (DirEntry (arcname @ ''/''))"

text \<open>Adding \<^verbatim>\<open>node-metadata.conf.json\<close> (source lines 138-141).\<close>

definition add_node_metadata ::
  "string \<Rightarrow> fs_node option \<Rightarrow> bool \<Rightarrow> string set \<Rightarrow> zip_entry list res" where
  "add_node_metadata input_folder tree whitelist whitelist_files =
     (let node_metadata_path = os_path_join input_folder ''node-metadata.conf.json'' in
      case fs_child tree ''node-metadata.conf.json'' of
        None \<Rightarrow> py_return []
      | Some n \<Rightarrow>
          if \<not> whitelist \<or> ''node-metadata.conf.json'' \<in> whitelist_files then
            (case zipf_write node_metadata_path n ''node-metadata.conf.json'' of
               Inl e \<Rightarrow> py_raise e
             | Inr entry \<Rightarrow> (Inr [entry], [Log INFO (''Added file: '' @ node_metadata_path)]))
          else py_return [])"

text \<open>
  \<^verbatim>\<open>os.walk\<close>, top down: for each directory its path, the names of its
  subdirectories and its files (each file name with what reading the file gives), and,
  for \<open>os_path_relpath\<close>, the directory names leading to it from the top.  A top that
  is missing or not a directory yields nothing.
\<close>

type_synonym walk_item = "string \<times> string list \<times> string list \<times> (string \<times> string option) list"

fun dir_names :: "(string \<times> fs_node) list \<Rightarrow> string list" where
  "dir_names [] = []"
| "dir_names ((name, Dir ds) # es) = name # dir_names es"
| "dir_names ((name, File c) # es) = dir_names es"

fun file_entries :: "(string \<times> fs_node) list \<Rightarrow> (string \<times> string option) list" where
  "file_entries [] = []"
| "file_entries ((name, Dir ds) # es) = file_entries es"
| "file_entries ((name, File c) # es) = (name, c) # file_entries es"

fun os_walk :: "string \<Rightarrow> string list \<Rightarrow> fs_node \<Rightarrow> walk_item list"
  and os_walk_subdirs :: "string \<Rightarrow> string list \<Rightarrow> (string \<times> fs_node) list \<Rightarrow> walk_item list"
where
  "os_walk path rel (File c) = []"
| "os_walk path rel (Dir es) =
     (path, rel, dir_names es, file_entries es) # os_walk_subdirs path rel es"
| "os_walk_subdirs path rel [] = []"
| "os_walk_subdirs path rel ((name, File c) # es) = os_walk_subdirs path rel es"
| "os_walk_subdirs path rel ((name, Dir ds) # es) =
     os_walk (os_path_join path name) (rel @ [name]) (Dir ds) @ os_walk_subdirs path rel es"

definition os_walk_top :: "string \<Rightarrow> fs_node option \<Rightarrow> walk_item list" where
  "os_walk_top path tree = (case tree of None \<Rightarrow> [] | Some n \<Rightarrow> os_walk path [] n)"

text \<open>
  The loop over the files of one directory (source lines 149-158).  The state is the
  archive written so far and \<^verbatim>\<open>files_added_count\<close>.
\<close>

fun add_files ::
  "bool \<Rightarrow> string set \<Rightarrow> string \<Rightarrow> string list \<Rightarrow> (string \<times> string option) list \<Rightarrow>
   zip_entry list \<times> nat \<Rightarrow> (zip_entry list \<times> nat) res" where
  "add_files whitelist whitelist_files root rel [] st = py_return st"
| "add_files whitelist whitelist_files root rel ((file, content) # files) (zipf, files_added_count) =
     (let file_path = os_path_join root file;
          rel_file_path = os_path_relpath rel file
      in if whitelist \<and> rel_file_path \<notin> whitelist_files then
           add_files whitelist whitelist_files root rel files (zipf, files_added_count)
         else if str_endswith file ''conf.json'' then
           (case zipf_write file_path (File content) rel_file_path of
              Inl e \<Rightarrow> py_raise e
            | Inr entry \<Rightarrow>
                after [Log INFO (''Added file: '' @ file_path)]
                  (add_files whitelist whitelist_files root rel files
                     (zipf @ [entry], files_added_count + 1)))
         else add_files whitelist whitelist_files root rel files (zipf, files_added_count))"

text \<open>The loop over the directories of the walk (source lines 147-158).\<close>

fun walk_loop ::
  "bool \<Rightarrow> string set \<Rightarrow> walk_item list \<Rightarrow> zip_entry list \<times> nat \<Rightarrow> (zip_entry list \<times> nat) res" where
  "walk_loop whitelist whitelist_files [] st = py_return st"
| "walk_loop whitelist whitelist_files ((root, rel, dirs, files) # items) st =
     (if os_path_basename root \<in> {''pipes'', ''systems''} then
        (case add_files whitelist whitelist_files root rel files st of
           (Inl e, t) \<Rightarrow> (Inl e, t)
         | (Inr st', t) \<Rightarrow> after t (walk_loop whitelist whitelist_files items st'))
      else walk_loop whitelist whitelist_files items st)"

text \<open>The body of the \<^verbatim>\<open>with zipfile.ZipFile(...)\<close> block (source lines 126-161).\<close>

definition zip_body :: "world \<Rightarrow> string \<Rightarrow> bool \<Rightarrow> zip_entry list res" where
  "zip_body w input_folder whitelist =
     (let tree = lookup w input_folder in
      py_bind (if whitelist then read_whitelist w input_folder tree else py_return {})
        (\<lambda>whitelist_files.
      py_bind (add_node_metadata input_folder tree whitelist whitelist_files)
        (\<lambda>zipf0.
      py_bind (walk_loop whitelist whitelist_files (os_walk_top input_folder tree) (zipf0, 0))
        (\<lambda>(zipf, files_added_count).
      py_then (logger_info (str_nat files_added_count @ '' files were added to the zip file.''))
        (py_return zipf)))))"

text \<open>
  \<^verbatim>\<open>create_zipped_config\<close>: \<open>None\<close> after an \<^verbatim>\<open>OSError\<close> (which covers the three
  classes the handler names), else the path of the archive, here together with the
  entries now stored at that path, which is what reading the file back gives.
\<close>

definition create_zipped_config ::
  "world \<Rightarrow> string \<Rightarrow> string \<Rightarrow> bool \<Rightarrow> (string \<times> zip_entry list) option res" where
  "create_zipped_config w input_folder output_zip whitelist =
     (case (case zip_open w output_zip of
              Some e \<Rightarrow> py_raise e
            | None \<Rightarrow> zip_body w input_folder whitelist) of
        (Inl (Raised e), t) \<Rightarrow>
          if is_OSError e then
            (Inr None,
             t @ [Log ERROR (''An error occurred while creating the zip file: '' @ exn_str e)])
          else (Inl (Raised e), t)
      | (Inl (SystemExit code), t) \<Rightarrow> (Inl (SystemExit code), t)
      | (Inr zipf, t) \<Rightarrow> (Inr (Some (output_zip, zipf)), t))"

section \<open>The node client: \<^verbatim>\<open>class SesamNode\<close>\<close>

record sesam_node =
  node_url :: string
  jwt_token :: string
  subscription_id :: "string option"
  api_connection :: node_api

definition type_name :: "json \<Rightarrow> string" where
  "type_name j =
     (case j of JNull \<Rightarrow> ''NoneType'' | JBool b \<Rightarrow> ''bool'' | JNum n \<Rightarrow> ''int''
      | JStr s \<Rightarrow> ''str'' | JArr xs \<Rightarrow> ''list'' | JObj kvs \<Rightarrow> ''dict'')"

definition no_attribute :: "json \<Rightarrow> string \<Rightarrow> exn" where
  "no_attribute j attr =
     Exn AttributeError (quote (type_name j) @ '' object has no attribute '' @ quote attr)"

text \<open>
  Source lines 65-69 of the constructor: the local \<^verbatim>\<open>principals\<close> (\<open>None\<close> when it is
  never assigned, which happens for a falsy payload) and \<^verbatim>\<open>subscription_id\<close>.
\<close>

definition jwt_principals :: "json \<Rightarrow> exn + (json option \<times> string option)" where
  "jwt_principals jwt_data =
     (if truthy jwt_data then
        (case jwt_data of
           JObj kvs \<Rightarrow>
             (let principals = (case map_of kvs ''principals'' of None \<Rightarrow> JObj [] | Some p \<Rightarrow> p)
              in case principals of
                   JObj ps \<Rightarrow>
                     Inr (Some principals, (case ps of [] \<Rightarrow> None | (k, v) # rest \<Rightarrow> Some k))
                 | other \<Rightarrow> Inl (no_attribute principals ''keys''))
         | other \<Rightarrow> Inl (no_attribute jwt_data ''get''))
      else Inr (None, None))"

text \<open>\<^verbatim>\<open>SesamNode.__init__\<close> (source lines 53-79).\<close>

definition SesamNode_init :: "world \<Rightarrow> string \<Rightarrow> string \<Rightarrow> sesam_node res" where
  "SesamNode_init w url jwt =
     (case str_split CHR ''.'' jwt of
        [a, payload, b] \<Rightarrow>
          (case b64decode w (payload @ ''=='') of
             Inl msg \<Rightarrow> py_raise (Exn ValueError msg)
           | Inr raw \<Rightarrow>
               (case json_loads w raw of
                  Inl msg \<Rightarrow> py_raise (Exn ValueError msg)
                | Inr jwt_data \<Rightarrow>
                    (case jwt_principals jwt_data of
                       Inl e \<Rightarrow> py_raise e
                     | Inr (principals, sub) \<Rightarrow>
                         after [Log INFO (''Connecting to Sesam using url '' @ url @ [CHR 0x27]
                                  @ '' and JWT '' @ take 10 jwt @ ''*********''
                                  @ drop (length jwt - 10) jwt)]
                           (case principals of
                              None \<Rightarrow>
                                py_raise (Exn UnboundLocalError
                                  ''cannot access local variable principals'')
                            | Some p \<Rightarrow>
                                after [Log INFO (''JWT Principals '' @ py_str w p)]
                                  (case connection w of
                                     Inl e \<Rightarrow> py_raise e
                                   | Inr api \<Rightarrow>
                                       py_return \<lparr>node_url = url, jwt_token = jwt,
                                         subscription_id = sub, api_connection = api\<rparr>)))))
      | parts \<Rightarrow>
          py_raise (Exn ValueError
            (if length parts < 3 then ''not enough values to unpack (expected 3)''
             else ''too many values to unpack (expected 3)'')))"

text \<open>A call of the connection: the call is recorded, then its answer or exception.\<close>

definition api_call :: "call \<Rightarrow> exn + 'a \<Rightarrow> 'a res" where
  "api_call c answer = (case answer of Inl e \<Rightarrow> (Inl (Raised e), [Call c]) | Inr x \<Rightarrow> (Inr x, [Call c]))"

definition get_health :: "sesam_node \<Rightarrow> json res" where
  "get_health n =
     after [Log INFO (''GET health from '' @ node_url n)]
       (api_call GetHealth (api_get_health (api_connection n)))"

definition put_env :: "sesam_node \<Rightarrow> json \<Rightarrow> string res" where
  "put_env n env_vars =
     after [Log INFO (''PUT env vars to '' @ node_url n)]
       (api_call (PutEnvVars env_vars) (api_put_env_vars (api_connection n) env_vars))"

definition post_secrets :: "sesam_node \<Rightarrow> json \<Rightarrow> string res" where
  "post_secrets n secrets =
     after [Log INFO (''POST secrets to '' @ node_url n)]
       (api_call (PostSecrets secrets) (api_post_secrets (api_connection n) secrets))"

definition put_secrets :: "sesam_node \<Rightarrow> json \<Rightarrow> string res" where
  "put_secrets n secrets =
     after [Log INFO (''PUT secrets to '' @ node_url n)]
       (api_call (PutSecrets secrets) (api_put_secrets (api_connection n) secrets))"

definition put_config :: "sesam_node \<Rightarrow> zip_entry list \<Rightarrow> bool \<Rightarrow> string res" where
  "put_config n config force =
     after [Log INFO (''PUT config to '' @ node_url n)]
       (api_call (UploadConfig config force) (api_upload_config (api_connection n) config force))"

section \<open>The deployment steps\<close>

definition check_required_env_vars :: "world \<Rightarrow> string list \<Rightarrow> bool res" where
  "check_required_env_vars w required_vars =
     (let missing_vars = filter (\<lambda>var. environ w var = None) required_vars in
      if missing_vars \<noteq> [] then
        (Inr False,
         map (\<lambda>var. Log ERROR (''Required environment variable '' @ quote var @ '' is missing.''))
           missing_vars)
      else py_return True)"

definition parse_bool_env :: "string option \<Rightarrow> bool \<Rightarrow> bool" where
  "parse_bool_env env_value dflt =
     (case env_value of
        None \<Rightarrow> dflt
      | Some v \<Rightarrow>
          (let v' = str_lower v in
           if v' \<in> {''true'', ''1'', ''yes''} then True
           else if v' \<in> {''false'', ''0'', ''no''} then False
           else dflt))"

definition read_json_file :: "world \<Rightarrow> string \<Rightarrow> json res" where
  "read_json_file w file_path =
     (case lookup w file_path of
        None \<Rightarrow> py_raise (Exn FileNotFoundError (''File '' @ quote file_path @ '' not found.''))
      | Some n \<Rightarrow>
          (case open_read file_path n of
             Inl e \<Rightarrow> py_raise e
           | Inr text \<Rightarrow>
               (case json_loads w text of
                  Inl msg \<Rightarrow>
                    py_raise (Exn ValueError
                      (''Error decoding JSON in file '' @ quote file_path @ '': '' @ msg))
                | Inr data \<Rightarrow> py_return data)))"

text \<open>\<^verbatim>\<open>if secrets_file:\<close> and its like: the variable is set and not empty.\<close>

definition supplied :: "string option \<Rightarrow> bool" where
  "supplied v = (case v of None \<Rightarrow> False | Some s \<Rightarrow> s \<noteq> [])"

definition opt_str :: "string option \<Rightarrow> string" where
  "opt_str v = (case v of None \<Rightarrow> ''None'' | Some s \<Rightarrow> s)"

definition deploy_secrets ::
  "world \<Rightarrow> sesam_node \<Rightarrow> string option \<Rightarrow> bool \<Rightarrow> bool \<Rightarrow> unit res" where
  "deploy_secrets w sesam_node secrets_file dry_run replace_secrets =
     (if supplied secrets_file then
        py_then (logger_info (''=> deploying secrets using file: '' @ opt_str secrets_file))
       (py_then (logger_info (''dry_run: '' @ str_bool dry_run))
       (py_then (logger_info (''replace_secrets: '' @ str_bool replace_secrets))
       (py_bind (read_json_file w (opt_str secrets_file)) (\<lambda>secrets_json.
          if dry_run then
            logger_info ''result: dry run enabled. No secrets deployed to the Sesam node.''
          else
            py_bind (if replace_secrets then put_secrets sesam_node secrets_json
                     else post_secrets sesam_node secrets_json)
              (\<lambda>deploy_secrets. logger_info (''result: '' @ deploy_secrets))))))
      else py_return ())"

definition deploy_variables :: "world \<Rightarrow> sesam_node \<Rightarrow> string option \<Rightarrow> bool \<Rightarrow> unit res" where
  "deploy_variables w sesam_node variables_file dry_run =
     (if supplied variables_file then
        py_then (logger_info (''=> deploying variables using file: '' @ opt_str variables_file))
       (py_then (logger_info (''dry_run: '' @ str_bool dry_run))
       (py_bind (read_json_file w (opt_str variables_file)) (\<lambda>variables_json.
          if dry_run then
            logger_info ''result: dry run enabled. No variables deployed to the Sesam node.''
          else
            py_bind (put_env sesam_node variables_json)
              (\<lambda>deploy_variables. logger_info (''result: '' @ deploy_variables)))))
      else py_return ())"

text \<open>
  In \<^verbatim>\<open>deploy_config\<close>, \<^verbatim>\<open>open(zip_path, 'rb')\<close> on the \<open>None\<close> that a failed packaging
  returned raises \<^verbatim>\<open>TypeError\<close>; on the path of the archive it gives the entries
  written there.
\<close>

definition deploy_config ::
  "world \<Rightarrow> sesam_node \<Rightarrow> string option \<Rightarrow> bool \<Rightarrow> bool \<Rightarrow> bool \<Rightarrow> unit res" where
  "deploy_config w sesam_node config_folder dry_run use_whitelist force_config =
     (if supplied config_folder then
        py_then (logger_info (''=> deploying config using folder: '' @ opt_str config_folder))
       (py_then (logger_info (''dry_run: '' @ str_bool dry_run))
       (py_then (logger_info (''use_whitelist: '' @ str_bool use_whitelist))
       (py_then (logger_info (''force_config: '' @ str_bool force_config))
       (py_bind (create_zipped_config w (opt_str config_folder) ''config.zip'' use_whitelist)
          (\<lambda>zip_path.
          if dry_run then
            logger_info ''result: dry run enabled. No config deployed to the Sesam node.''
          else
            (case zip_path of
               None \<Rightarrow>
                 py_raise (Exn TypeError
                   ''expected str, bytes or os.PathLike object, not NoneType'')
             | Some (path, zip_content) \<Rightarrow>
                 py_bind (put_config sesam_node zip_content force_config)
                   (\<lambda>deploy_config. logger_info (''result: '' @ deploy_config))))))))
      else py_return ())"

section \<open>\<^verbatim>\<open>main\<close>\<close>

definition environ_get :: "world \<Rightarrow> string \<Rightarrow> string \<Rightarrow> string" where
  "environ_get w key dflt = (case environ w key of None \<Rightarrow> dflt | Some v \<Rightarrow> v)"

text \<open>The flags as \<^verbatim>\<open>main\<close> reads them (source lines 243-249).\<close>

definition force_config_flag :: "world \<Rightarrow> bool" where
  "force_config_flag w = parse_bool_env (Some (environ_get w ''INPUT_FORCE_CONFIG'' ''False'')) False"

definition replace_secrets_flag :: "world \<Rightarrow> bool" where
  "replace_secrets_flag w =
     parse_bool_env (Some (environ_get w ''INPUT_REPLACE_SECRETS'' ''False'')) False"

definition use_whitelist_flag :: "world \<Rightarrow> bool" where
  "use_whitelist_flag w = parse_bool_env (Some (environ_get w ''INPUT_USE_WHITELIST'' ''False'')) False"

definition dry_run_flag :: "world \<Rightarrow> bool" where
  "dry_run_flag w = parse_bool_env (Some (environ_get w ''INPUT_DRY_RUN'' ''True'')) False"

text \<open>The check of the node's health (source lines 263-268).\<close>

definition health_gate :: "world \<Rightarrow> json \<Rightarrow> unit res" where
  "health_gate w node_health =
     (case node_health of
        JObj kvs \<Rightarrow>
          if map_of kvs ''status'' = Some (JStr ''ok'') then
            logger_info (''node_status: OK (uptime: ''
              @ py_str w (case map_of kvs ''node_uptime'' of None \<Rightarrow> JNull | Some u \<Rightarrow> u)
              @ '')'')
          else
            py_then (logger_error ''Node health status not OK. Program will be exited.'')
              (sys_exit 1)
      | other \<Rightarrow> py_raise (no_attribute node_health ''get''))"

text \<open>
  The body of the \<^verbatim>\<open>try\<close> block of \<^verbatim>\<open>main\<close>, in two parts.  First, source lines
  233-268: the required variables, the environment, the client and the health check;
  the result is the client.  The flags of lines 243-249 are the functions above.  The
  summary handler of lines 252-254 only copies log records to a file and is left out.
\<close>

definition main_start :: "world \<Rightarrow> sesam_node res" where
  "main_start w =
     py_bind (check_required_env_vars w [''INPUT_NODE'', ''INPUT_JWT'', ''INPUT_CONFIG_FOLDER''])
       (\<lambda>present.
        if \<not> present then sys_exit 1
        else
          (let node = environ w ''INPUT_NODE'';
               jwt_token = environ w ''INPUT_JWT'';
               sesam_node_url = ''https://'' @ opt_str node @ ''/api''
           in py_bind (case jwt_token of
                         None \<Rightarrow> py_raise (no_attribute JNull ''split'')
                       | Some jwt \<Rightarrow> SesamNode_init w sesam_node_url jwt)
                (\<lambda>sesam_node.
              py_bind (get_health sesam_node)
                (\<lambda>node_health.
              py_then (health_gate w node_health) (py_return sesam_node)))))"

text \<open>Then source lines 271-273: the three deployment steps, with their arguments.\<close>

definition secrets_step :: "world \<Rightarrow> sesam_node \<Rightarrow> unit res" where
  "secrets_step w sesam_node =
     deploy_secrets w sesam_node (environ w ''INPUT_SECRETS_FILE'') (dry_run_flag w)
       (replace_secrets_flag w)"

definition variables_step :: "world \<Rightarrow> sesam_node \<Rightarrow> unit res" where
  "variables_step w sesam_node =
     deploy_variables w sesam_node (environ w ''INPUT_VARIABLES_FILE'') (dry_run_flag w)"

definition config_step :: "world \<Rightarrow> sesam_node \<Rightarrow> unit res" where
  "config_step w sesam_node =
     deploy_config w sesam_node (environ w ''INPUT_CONFIG_FOLDER'') (dry_run_flag w)
       (use_whitelist_flag w) (force_config_flag w)"

definition main_deploy :: "world \<Rightarrow> sesam_node \<Rightarrow> unit res" where
  "main_deploy w sesam_node =
     py_then (secrets_step w sesam_node)
       (py_then (variables_step w sesam_node) (config_step w sesam_node))"

definition main_try :: "world \<Rightarrow> unit res" where
  "main_try w = py_bind (main_start w) (main_deploy w)"

text \<open>
  \<^verbatim>\<open>main\<close>: the exit code of the process and everything it logged and called.  The
  handler \<^verbatim>\<open>except Exception\<close> logs and exits with 1; a \<^verbatim>\<open>SystemExit\<close> passes through
  it.
\<close>

definition main :: "world \<Rightarrow> nat \<times> event list" where
  "main w =
     (case main_try w of
        (Inr u, t) \<Rightarrow> (0, t)
      | (Inl (SystemExit code), t) \<Rightarrow> (code, t)
      | (Inl (Raised e), t) \<Rightarrow> (1, t @ [Log ERROR (''An error occurred: '' @ exn_str e)]))"

section \<open>Observations on a run\<close>

text \<open>The calls that change the node: everything but the health check.\<close>

fun is_mutating :: "event \<Rightarrow> bool" where
  "is_mutating (Call GetHealth) = False"
| "is_mutating (Call c) = True"
| "is_mutating (Log l m) = False"

fun is_create :: "event \<Rightarrow> bool" where
  "is_create (Call (PostSecrets j)) = True"
| "is_create e = False"

fun is_replace :: "event \<Rightarrow> bool" where
  "is_replace (Call (PutSecrets j)) = True"
| "is_replace e = False"

text \<open>
  Each step, when its source is supplied, first logs \<open>=> deploying KIND using ...\<close>;
  a step was attempted in a run when that record is in the run's events.
\<close>

fun is_step_marker :: "string \<Rightarrow> event \<Rightarrow> bool" where
  "is_step_marker kind (Log l m) = prefix (''=> deploying '' @ kind @ '' using '') m"
| "is_step_marker kind (Call c) = False"

definition step_attempted :: "string \<Rightarrow> event list \<Rightarrow> bool" where
  "step_attempted kind t = list_ex (is_step_marker kind) t"

text \<open>
  A source that is supplied and names a readable file whose content \<^verbatim>\<open>json.load\<close>
  rejects.
\<close>

definition malformed :: "world \<Rightarrow> string option \<Rightarrow> bool" where
  "malformed w src =
     (supplied src \<and>
      (case lookup w (opt_str src) of
         Some (File (Some text)) \<Rightarrow> isl (json_loads w text)
       | other \<Rightarrow> False))"

text \<open>A log record that is not the first record of a step.\<close>

fun plain_log :: "event \<Rightarrow> bool" where
  "plain_log (Log l m) = (\<not> prefix ''=> deploying '' m)"
| "plain_log (Call c) = False"

text \<open>Events none of which satisfies \<open>P\<close>.\<close>

definition quiet :: "(event \<Rightarrow> bool) \<Rightarrow> event list \<Rightarrow> bool" where
  "quiet P t = (\<forall>ev\<in>set t. \<not> P ev)"

text \<open>The node calls among the events, in order.\<close>

fun calls_of :: "event list \<Rightarrow> call list" where
  "calls_of [] = []"
| "calls_of (Call c # t) = c # calls_of t"
| "calls_of (Log l m # t) = calls_of t"

text \<open>A computation that does not end in \<^verbatim>\<open>SystemExit\<close>.\<close>

definition no_exit :: "'a res \<Rightarrow> bool" where
  "no_exit m = (\<forall>code. fst m \<noteq> Inl (SystemExit code))"

section \<open>The packaging rule in the words of the specification\<close>

text \<open>
  \<open>dir_at t path rel path' rel' es\<close>: in the tree \<open>t\<close>, found at \<open>path\<close> (and \<open>rel\<close>
  below the configuration root), there is a directory with entries \<open>es\<close> at \<open>path'\<close>
  (and \<open>rel'\<close> below the root).
\<close>

inductive dir_at ::
  "fs_node \<Rightarrow> string \<Rightarrow> string list \<Rightarrow> string \<Rightarrow> string list \<Rightarrow> (string \<times> fs_node) list \<Rightarrow> bool"
where
  here: "dir_at (Dir es) path rel path rel es"
| below: "(name, Dir ds) \<in> set es \<Longrightarrow>
          dir_at (Dir ds) (os_path_join path name) (rel @ [name]) path' rel' es' \<Longrightarrow>
          dir_at (Dir es) path rel path' rel' es'"

text \<open>
  A candidate: a file (with what reading it gives) that resides directly in a directory
  whose base name is exactly \<open>pipes\<close> or \<open>systems\<close> and whose name ends with
  \<open>conf.json\<close>, under its path relative to the configuration root.
\<close>

definition candidate :: "string \<Rightarrow> fs_node option \<Rightarrow> string \<Rightarrow> string option \<Rightarrow> bool" where
  "candidate input_folder tree q content =
     (\<exists>t path rel es name.
        tree = Some t \<and> dir_at t input_folder [] path rel es \<and>
        (name, File content) \<in> set es \<and>
        os_path_basename path \<in> {''pipes'', ''systems''} \<and>
        str_endswith name ''conf.json'' \<and>
        q = os_path_relpath rel name)"

text \<open>
  The whitelist set: the stripped lines of \<open>deployment/whitelist.txt\<close> whose path
  exists under the configuration root; empty when there is no such file.
\<close>

definition whitelist_set :: "world \<Rightarrow> string \<Rightarrow> string set" where
  "whitelist_set w input_folder =
     (case fs_child (fs_child (lookup w input_folder) ''deployment'') ''whitelist.txt'' of
        Some (File (Some text)) \<Rightarrow>
          {str_strip line | line.
             line \<in> set (file_lines text) \<and>
             path_exists w (os_path_join input_folder (str_strip line))}
      | other \<Rightarrow> {})"

text \<open>Whitelist disabled, or the path is in the whitelist set.\<close>

definition listed :: "world \<Rightarrow> string \<Rightarrow> bool \<Rightarrow> string \<Rightarrow> bool" where
  "listed w input_folder whitelist q = (\<not> whitelist \<or> q \<in> whitelist_set w input_folder)"

text \<open>
  What the walk selects, as sets of relative paths with what reading the file gives:
  from the files of one directory, from one item of the walk, from all items.
\<close>

definition file_selected :: "bool \<Rightarrow> string set \<Rightarrow> string list \<Rightarrow> string \<Rightarrow> bool" where
  "file_selected whitelist whitelist_files rel file =
     (str_endswith file ''conf.json'' \<and>
      (\<not> whitelist \<or> os_path_relpath rel file \<in> whitelist_files))"

definition files_selection ::
  "bool \<Rightarrow> string set \<Rightarrow> string list \<Rightarrow> (string \<times> string option) list \<Rightarrow>
   (string \<times> string option) set" where
  "files_selection whitelist whitelist_files rel files =
     {(os_path_relpath rel file, content) | file content.
        (file, content) \<in> set files \<and> file_selected whitelist whitelist_files rel file}"

definition item_selection ::
  "bool \<Rightarrow> string set \<Rightarrow> walk_item \<Rightarrow> (string \<times> string option) set" where
  "item_selection whitelist whitelist_files item =
     (case item of (root, rel, dirs, files) \<Rightarrow>
        if os_path_basename root \<in> {''pipes'', ''systems''}
        then files_selection whitelist whitelist_files rel files else {})"

definition selection ::
  "bool \<Rightarrow> string set \<Rightarrow> walk_item list \<Rightarrow> (string \<times> string option) set" where
  "selection whitelist whitelist_files items =
     (\<Union>item\<in>set items. item_selection whitelist whitelist_files item)"

definition entries_of :: "(string \<times> string option) set \<Rightarrow> zip_entry set" where
  "entries_of S = {FileEntry q content | q content. (q, Some content) \<in> S}"

definition readable :: "(string \<times> string option) set \<Rightarrow> bool" where
  "readable S = (\<forall>q. (q, None) \<notin> S)"

text \<open>
  What the metadata step adds: the root metadata file when it is a readable file and
  listed; a directory of that name gives a directory entry.
\<close>

definition metadata_entries :: "world \<Rightarrow> string \<Rightarrow> bool \<Rightarrow> zip_entry set" where
  "metadata_entries w input_folder whitelist =
     (if listed w input_folder whitelist ''node-metadata.conf.json'' then
        (case fs_child (lookup w input_folder) ''node-metadata.conf.json'' of
           Some (File (Some content)) \<Rightarrow> {FileEntry ''node-metadata.conf.json'' content}
         | Some (Dir es) \<Rightarrow> {DirEntry ''node-metadata.conf.json/''}
         | other \<Rightarrow> {})
      else {})"

text \<open>A directory in which no name occurs twice.\<close>

definition unique_names :: "fs_node option \<Rightarrow> bool" where
  "unique_names tree = (case tree of Some (Dir es) \<Rightarrow> distinct (map fst es) | other \<Rightarrow> True)"

section \<open>Example worlds\<close>

definition ex_api :: node_api where
  "ex_api =
     \<lparr>api_get_health = Inr (JObj [(''status'', JStr ''ok''), (''node_uptime'', JNum 5)]),
      api_put_env_vars = (\<lambda>j. Inr ''env-ok''),
      api_post_secrets = (\<lambda>j. Inr ''post-ok''),
      api_put_secrets = (\<lambda>j. Inr ''put-ok''),
      api_upload_config = (\<lambda>z f. Inr ''config-ok'')\<rparr>"

text \<open>
  The tree of the specification's example, with a metadata file and a whitelist that
  lists \<open>pipes/a.conf.json\<close> only.
\<close>

definition ex_tree :: fs_node where
  "ex_tree =
     Dir [(''pipes'', Dir [(''a.conf.json'', File (Some ''A''))]),
          (''systems'', Dir [(''b.conf.json'', File (Some ''B''))]),
          (''other'', Dir [(''c.conf.json'', File (Some ''C''))]),
          (''node-metadata.conf.json'', File (Some ''M'')),
          (''deployment'',
             Dir [(''whitelist.txt'', File (Some (''pipes/a.conf.json'' @ [CHR 0x0A])))])]"

text \<open>
  A world in which everything works: the three sources are supplied, the token decodes,
  the node is healthy and accepts every upload; dry run is switched off.
\<close>

definition ex_world :: world where
  "ex_world =
     \<lparr>environ = [''INPUT_NODE'' \<mapsto> ''node'', ''INPUT_JWT'' \<mapsto> ''h.p.s'',
                 ''INPUT_CONFIG_FOLDER'' \<mapsto> ''cfg'', ''INPUT_SECRETS_FILE'' \<mapsto> ''secrets.json'',
                 ''INPUT_VARIABLES_FILE'' \<mapsto> ''vars.json'', ''INPUT_DRY_RUN'' \<mapsto> ''false''],
      lookup = [''cfg'' \<mapsto> ex_tree, ''secrets.json'' \<mapsto> File (Some ''secrets''),
                ''vars.json'' \<mapsto> File (Some ''vars''), ''bad.json'' \<mapsto> File (Some ''{'')],
      path_exists = (\<lambda>p. p = ''cfg/pipes/a.conf.json''),
      zip_open = (\<lambda>p. None),
      json_loads =
        (\<lambda>s. if s = ''secrets'' then Inr (JObj [(''password'', JStr ''x'')])
              else if s = ''vars'' then Inr (JObj [(''env'', JStr ''prod'')])
              else if s = ''claims'' then Inr (JObj [(''principals'', JObj [(''sub1'', JArr [])])])
              else Inl ''Expecting value''),
      b64decode = (\<lambda>s. if s = ''p=='' then Inr ''claims'' else Inl ''Incorrect padding''),
      py_str = (\<lambda>j. ''...''),
      connection = Inr ex_api\<rparr>"

text \<open>Variations: a token that is not three parts separated by dots, with dry run left
  at its default; the config folder variable not set; a secrets upload that the node
  refuses; a configuration file that the process may not read.\<close>

definition bad_token_world :: world where
  "bad_token_world =
     ex_world\<lparr>environ := (environ ex_world)(''INPUT_JWT'' \<mapsto> ''abc'', ''INPUT_DRY_RUN'' := None)\<rparr>"

definition no_config_world :: world where
  "no_config_world = ex_world\<lparr>environ := (environ ex_world)(''INPUT_CONFIG_FOLDER'' := None)\<rparr>"

definition refusing_world :: world where
  "refusing_world =
     ex_world\<lparr>connection :=
       Inr (ex_api\<lparr>api_post_secrets := (\<lambda>j. Inl (Exn OtherException ''secret already exists''))\<rparr>)\<rparr>"

definition unreadable_world :: world where
  "unreadable_world =
     ex_world\<lparr>lookup := (lookup ex_world)(''cfg'' \<mapsto>
       Dir [(''pipes'', Dir [(''a.conf.json'', File None)])])\<rparr>"

text \<open>More variations: dry run left at its default; the config folder variable set to
  the empty string; a secrets file that does not parse; a variables file that does not
  parse, under dry run.\<close>

definition dry_world :: world where
  "dry_world = ex_world\<lparr>environ := (environ ex_world)(''INPUT_DRY_RUN'' := None)\<rparr>"

definition empty_config_world :: world where
  "empty_config_world = ex_world\<lparr>environ := (environ ex_world)(''INPUT_CONFIG_FOLDER'' \<mapsto> [])\<rparr>"

definition malformed_world :: world where
  "malformed_world =
     ex_world\<lparr>environ := (environ ex_world)(''INPUT_SECRETS_FILE'' \<mapsto> ''bad.json'')\<rparr>"

definition dry_malformed_world :: world where
  "dry_malformed_world =
     ex_world\<lparr>environ := (environ ex_world)(''INPUT_VARIABLES_FILE'' \<mapsto> ''bad.json'',
       ''INPUT_DRY_RUN'' \<mapsto> ''true'')\<rparr>"

text \<open>The client that \<open>ex_world\<close> constructs.\<close>

definition ex_node :: sesam_node where
  "ex_node =
     \<lparr>node_url = ''https://node/api'', jwt_token = ''h.p.s'', subscription_id = Some ''sub1'',
      api_connection = ex_api\<rparr>"

section \<open>Sequencing lemmas\<close>

lemma after_simps: "after t (r, t') = (r, t @ t')"
  by (simp add: after_def)

lemma fst_after: "fst (after t m) = fst m" and snd_after: "snd (after t m) = t @ snd m"
  by (simp_all add: after_def)

lemma py_bind_Inr: "py_bind (Inr x, t) f = after t (f x)"
  by (simp add: py_bind_def)

lemma py_bind_Inl: "py_bind (Inl a, t) f = (Inl a, t)"
  by (simp add: py_bind_def)

lemma py_bind_Inr_iff:
  "py_bind m f = (Inr y, t) \<longleftrightarrow>
     (\<exists>x t1 t2. m = (Inr x, t1) \<and> f x = (Inr y, t2) \<and> t = t1 @ t2)"
proof (cases m)
  case (Pair r t1)
  then show ?thesis
    by (cases r; cases "f (projr r)") (auto simp: py_bind_def after_def)
qed

lemma py_then_Inr_iff:
  "py_then m k = (Inr y, t) \<longleftrightarrow>
     (\<exists>t1 t2. m = (Inr (), t1) \<and> k = (Inr y, t2) \<and> t = t1 @ t2)"
  by (simp add: py_then_def py_bind_Inr_iff)

lemma py_bind_InrE:
  assumes "py_bind m f = (Inr y, t)"
  obtains x t1 t2 where "m = (Inr x, t1)" "f x = (Inr y, t2)" "t = t1 @ t2"
  using assms py_bind_Inr_iff[of m f y t] by blast

section \<open>The walk and the loops of the packager\<close>

lemma file_entries_set: "(f, c) \<in> set (file_entries es) \<longleftrightarrow> (f, File c) \<in> set es"
  by (induction es rule: file_entries.induct) auto

lemma whitelist_loop_set:
  "whitelist_loop w folder lines S =
     S \<union> {str_strip line | line. line \<in> set lines \<and> path_exists w (os_path_join folder (str_strip line))}"
  by (induction lines arbitrary: S) (auto simp: Let_def)

inductive_cases dir_at_FileE: "dir_at (File c) path rel root r es"
inductive_cases dir_at_DirE: "dir_at (Dir es0) path rel root r es"

lemma dir_at_File: "dir_at (File c) path rel root r es \<longleftrightarrow> False"
  by (blast elim: dir_at_FileE)

lemma dir_at_Dir:
  "dir_at (Dir es0) path rel root r es \<longleftrightarrow>
     (root = path \<and> r = rel \<and> es = es0) \<or>
     (\<exists>name ds. (name, Dir ds) \<in> set es0 \<and>
        dir_at (Dir ds) (os_path_join path name) (rel @ [name]) root r es)"
  by (blast elim: dir_at_DirE intro: dir_at.intros)


lemma os_walk_set:
  "set (os_walk path rel t) =
     {(root, r, dir_names es, file_entries es) | root r es. dir_at t path rel root r es}"
  "set (os_walk_subdirs path rel es0) =
     {(root, r, dir_names es, file_entries es) | root r es.
        \<exists>name ds. (name, Dir ds) \<in> set es0 \<and>
          dir_at (Dir ds) (os_path_join path name) (rel @ [name]) root r es}"
proof (induction path rel t and path rel es0 rule: os_walk_os_walk_subdirs.induct)
  case (1 path rel c)
  show ?case by (simp add: dir_at_File)
next
  case (2 path rel es)
  have "set (os_walk path rel (Dir es)) =
          insert (path, rel, dir_names es, file_entries es) (set (os_walk_subdirs path rel es))"
    by simp
  also have "\<dots> = {(root, r, dir_names es', file_entries es') | root r es'.
                      dir_at (Dir es) path rel root r es'}"
  proof -
    have D: "\<And>root r es'. dir_at (Dir es) path rel root r es' \<longleftrightarrow>
      (root = path \<and> r = rel \<and> es' = es) \<or>
      (\<exists>name ds. (name, Dir ds) \<in> set es \<and>
        dir_at (Dir ds) (os_path_join path name) (rel @ [name]) root r es')"
      by (rule dir_at_Dir)
    show ?thesis unfolding 2 D by blast
  qed
  finally show ?case .
next
  case (3 path rel)
  show ?case by simp
next
  case (4 path rel name c es)
  then show ?case by simp
next
  case (5 path rel name ds es)
  have "set (os_walk_subdirs path rel ((name, Dir ds) # es)) =
          set (os_walk (os_path_join path name) (rel @ [name]) (Dir ds))
          \<union> set (os_walk_subdirs path rel es)"
    by simp
  also have "\<dots> = {(root, r, dir_names es', file_entries es') | root r es'.
        \<exists>name' ds'. (name', Dir ds') \<in> set ((name, Dir ds) # es) \<and>
          dir_at (Dir ds') (os_path_join path name') (rel @ [name']) root r es'}"
    unfolding 5 by (simp del: os_walk.simps) blast
  finally show ?case .
qed

lemma entries_of_simps:
  "entries_of {} = {}"
  "entries_of (A \<union> B) = entries_of A \<union> entries_of B"
  "entries_of (insert (q, Some c) S) = insert (FileEntry q c) (entries_of S)"
  "entries_of (insert (q, None) S) = entries_of S"
  by (auto simp: entries_of_def)

lemma readable_simps:
  "readable {}"
  "readable (A \<union> B) \<longleftrightarrow> readable A \<and> readable B"
  "readable (insert (q, Some c) S) \<longleftrightarrow> readable S"
  "\<not> readable (insert (q, None) S)"
  by (auto simp: readable_def)

lemma files_selection_simps:
  "files_selection wl wlf rel [] = {}"
  "files_selection wl wlf rel ((f, c) # files) =
     (if file_selected wl wlf rel f
      then insert (os_path_relpath rel f, c) (files_selection wl wlf rel files)
      else files_selection wl wlf rel files)"
  by (auto simp: files_selection_def)

lemma selection_simps:
  "selection wl wlf [] = {}"
  "selection wl wlf ((root, rel, dirs, files) # items) =
     (if os_path_basename root \<in> {''pipes'', ''systems''}
      then files_selection wl wlf rel files else {}) \<union> selection wl wlf items"
  by (auto simp: selection_def item_selection_def)

lemma add_files_Inr:
  "add_files wl wlf root rel files (zipf, n) = (Inr (zipf', n'), t) \<Longrightarrow>
     set zipf' = set zipf \<union> entries_of (files_selection wl wlf rel files) \<and>
     readable (files_selection wl wlf rel files)"
proof (induction files arbitrary: zipf n t)
  case Nil
  then show ?case by (simp add: py_return_def files_selection_simps entries_of_simps readable_simps)
next
  case (Cons fc files)
  obtain f c where fc: "fc = (f, c)" by (cases fc)
  show ?case
  proof (cases "file_selected wl wlf rel f")
    case False
    with Cons.prems fc have "add_files wl wlf root rel files (zipf, n) = (Inr (zipf', n'), t)"
      by (auto simp: Let_def file_selected_def split: if_splits)
    from Cons.IH[OF this] False fc show ?thesis
      by (simp add: files_selection_simps entries_of_simps readable_simps)
  next
    case True
    show ?thesis
    proof (cases c)
      case None
      with Cons.prems fc True show ?thesis
        by (auto simp: Let_def py_raise_def file_selected_def)
    next
      case (Some content)
      with Cons.prems fc True obtain t' where
        "add_files wl wlf root rel files
           (zipf @ [FileEntry (os_path_relpath rel f) content], n + 1) = (Inr (zipf', n'), t')"
        by (cases "add_files wl wlf root rel files
                     (zipf @ [FileEntry (os_path_relpath rel f) content], n + 1)")
           (auto simp: Let_def after_def file_selected_def)
      from Cons.IH[OF this] have
        "set zipf' = set zipf \<union> ({FileEntry (os_path_relpath rel f) content}
           \<union> entries_of (files_selection wl wlf rel files))"
        "readable (files_selection wl wlf rel files)"
        by simp_all
      with True Some fc show ?thesis
        by (simp add: files_selection_simps entries_of_simps readable_simps)
    qed
  qed
qed

lemma add_files_no_exit:
  "fst (add_files wl wlf root rel files st) \<noteq> Inl (SystemExit code)"
proof (induction files arbitrary: st)
  case Nil
  then show ?case by (simp add: py_return_def)
next
  case (Cons fc files)
  obtain f c zipf n where "fc = (f, c)" "st = (zipf, n)" by (cases fc, cases st) auto
  with Cons show ?case
    by (cases c) (auto simp: Let_def py_raise_def after_def split: if_splits)
qed

lemma walk_loop_Inr:
  "walk_loop wl wlf items (zipf, n) = (Inr (zipf', n'), t) \<Longrightarrow>
     set zipf' = set zipf \<union> entries_of (selection wl wlf items) \<and>
     readable (selection wl wlf items)"
proof (induction items arbitrary: zipf n t)
  case Nil
  then show ?case by (simp add: py_return_def selection_simps entries_of_simps readable_simps)
next
  case (Cons item items)
  obtain root rel dirs files where item: "item = (root, rel, dirs, files)" by (cases item)
  show ?case
  proof (cases "os_path_basename root \<in> {''pipes'', ''systems''}")
    case False
    with Cons.prems item have "walk_loop wl wlf items (zipf, n) = (Inr (zipf', n'), t)"
      by simp
    from Cons.IH[OF this] False item show ?thesis
      by (simp add: selection_simps entries_of_simps readable_simps)
  next
    case True
    obtain r1 t1 where a0: "add_files wl wlf root rel files (zipf, n) = (r1, t1)"
      by (cases "add_files wl wlf root rel files (zipf, n)")
    with Cons.prems item True obtain zipf1 n1 where r1: "r1 = Inr (zipf1, n1)"
      by (cases r1) auto
    obtain r2 t2 where b0: "walk_loop wl wlf items (zipf1, n1) = (r2, t2)"
      by (cases "walk_loop wl wlf items (zipf1, n1)")
    with Cons.prems item True a0 r1 have r2: "r2 = Inr (zipf', n')"
      by (simp add: after_def)
    from add_files_Inr[OF a0[unfolded r1]] Cons.IH[OF b0[unfolded r2]] have
      "set zipf' = set zipf \<union> (entries_of (files_selection wl wlf rel files)
         \<union> entries_of (selection wl wlf items))"
      "readable (files_selection wl wlf rel files)" "readable (selection wl wlf items)"
      by (simp_all add: Un_assoc)
    with True item show ?thesis
      by (simp add: selection_simps entries_of_simps readable_simps)
  qed
qed

lemma walk_loop_no_exit:
  "fst (walk_loop wl wlf items st) \<noteq> Inl (SystemExit code)"
proof (induction items arbitrary: st)
  case Nil
  then show ?case by (simp add: py_return_def)
next
  case (Cons item items)
  obtain root rel dirs files where item: "item = (root, rel, dirs, files)" by (cases item)
  show ?case
  proof (cases "os_path_basename root \<in> {''pipes'', ''systems''}")
    case False
    with Cons item show ?thesis by simp
  next
    case True
    obtain r1 t1 where a: "add_files wl wlf root rel files st = (r1, t1)"
      by (cases "add_files wl wlf root rel files st")
    have r1: "r1 \<noteq> Inl (SystemExit code)"
      using add_files_no_exit[of wl wlf root rel files st code] a by simp
    show ?thesis
    proof (cases r1)
      case (Inl e)
      with item True a r1 show ?thesis by simp
    next
      case (Inr st')
      with item True a Cons.IH[of st'] show ?thesis by (simp add: after_def)
    qed
  qed
qed

section \<open>What a successful packaging wrote\<close>

lemma read_whitelist_Inr:
  "read_whitelist w folder (lookup w folder) = (Inr S, t) \<Longrightarrow> S = whitelist_set w folder"
  by (auto simp: read_whitelist_def whitelist_set_def Let_def after_def py_return_def py_raise_def
        whitelist_loop_set
      split: option.splits fs_node.splits sum.splits)

lemma files_selection_False:
  "files_selection False A rel files = files_selection False B rel files"
  by (simp add: files_selection_def file_selected_def)

lemma item_selection_False: "item_selection False A item = item_selection False B item"
  by (cases item) (simp add: item_selection_def files_selection_False[of A _ _ B])

lemma selection_False: "selection False A items = selection False B items"
  by (simp add: selection_def item_selection_False[of A _ B])

lemma files_selection_mono:
  "files_selection True A rel files \<subseteq> files_selection False B rel files"
  by (auto simp: files_selection_def file_selected_def)

lemma item_selection_mono: "item_selection True A item \<subseteq> item_selection False B item"
  using files_selection_mono by (cases item) (simp add: item_selection_def)

lemma selection_mono: "selection True A items \<subseteq> selection False B items"
  using item_selection_mono by (fastforce simp: selection_def)

lemma add_node_metadata_Inr:
  assumes "add_node_metadata folder (lookup w folder) wl wlf = (Inr zipf0, t)"
    and "wl \<Longrightarrow> wlf = whitelist_set w folder"
  shows "set zipf0 = metadata_entries w folder wl"
  using assms
  by (cases wl)
     (auto simp: add_node_metadata_def metadata_entries_def listed_def Let_def py_return_def
        py_raise_def split: option.splits fs_node.splits if_splits)

lemma zip_body_Inr:
  assumes "zip_body w folder wl = (Inr bundle, t)"
  shows "set bundle = metadata_entries w folder wl \<union>
           entries_of (selection wl (whitelist_set w folder) (os_walk_top folder (lookup w folder)))"
    and "readable (selection wl (whitelist_set w folder) (os_walk_top folder (lookup w folder)))"
proof -
  define tree where "tree = lookup w folder"
  from assms have
    "py_bind (if wl then read_whitelist w folder tree else py_return {})
       (\<lambda>whitelist_files.
          py_bind (add_node_metadata folder tree wl whitelist_files)
            (\<lambda>zipf0.
               py_bind (walk_loop wl whitelist_files (os_walk_top folder tree) (zipf0, 0))
                 (\<lambda>(zipf, files_added_count).
                    py_then (logger_info (str_nat files_added_count
                                 @ '' files were added to the zip file.''))
                      (py_return zipf)))) = (Inr bundle, t)"
    unfolding zip_body_def Let_def tree_def .
  then obtain wlf t1 ta where
    a: "(if wl then read_whitelist w folder tree else py_return {}) = (Inr wlf, t1)" and
    rest1: "py_bind (add_node_metadata folder tree wl wlf)
       (\<lambda>zipf0.
          py_bind (walk_loop wl wlf (os_walk_top folder tree) (zipf0, 0))
            (\<lambda>(zipf, files_added_count).
               py_then (logger_info (str_nat files_added_count
                            @ '' files were added to the zip file.''))
                 (py_return zipf))) = (Inr bundle, ta)"
    by (rule py_bind_InrE)
  from rest1 obtain zipf0 t2 tb where
    b: "add_node_metadata folder tree wl wlf = (Inr zipf0, t2)" and
    rest2: "py_bind (walk_loop wl wlf (os_walk_top folder tree) (zipf0, 0))
       (\<lambda>(zipf, files_added_count).
          py_then (logger_info (str_nat files_added_count
                       @ '' files were added to the zip file.''))
            (py_return zipf)) = (Inr bundle, tb)"
    by (rule py_bind_InrE)
  from rest2 obtain st t3 tc where
    c: "walk_loop wl wlf (os_walk_top folder tree) (zipf0, 0) = (Inr st, t3)" and
    d: "(case st of (zipf, files_added_count) \<Rightarrow>
          py_then (logger_info (str_nat files_added_count
                       @ '' files were added to the zip file.''))
            (py_return zipf)) = (Inr bundle, tc)"
    by (rule py_bind_InrE)
  obtain n where st: "st = (bundle, n)"
    using d by (cases st) (simp add: py_then_Inr_iff py_return_def)
  have wlf: "wl \<Longrightarrow> wlf = whitelist_set w folder"
    using a read_whitelist_Inr[of w folder wlf t1] by (simp add: tree_def)
  from walk_loop_Inr[OF c[unfolded st]]
  have w1: "set bundle = set zipf0 \<union> entries_of (selection wl wlf (os_walk_top folder tree))"
    and w2: "readable (selection wl wlf (os_walk_top folder tree))" by simp_all
  have m: "set zipf0 = metadata_entries w folder wl"
    using add_node_metadata_Inr[OF b[unfolded tree_def] wlf] by simp
  have s: "selection wl wlf (os_walk_top folder tree) =
           selection wl (whitelist_set w folder) (os_walk_top folder tree)"
    using wlf selection_False[of wlf] by (cases wl) auto
  from w1 m s show "set bundle = metadata_entries w folder wl \<union>
           entries_of (selection wl (whitelist_set w folder) (os_walk_top folder (lookup w folder)))"
    by (simp add: tree_def)
  from w2 s show "readable (selection wl (whitelist_set w folder) (os_walk_top folder (lookup w folder)))"
    by (simp add: tree_def)
qed

lemma create_zipped_config_Some:
  assumes "create_zipped_config w folder out wl = (Inr (Some (p, bundle)), t)"
  shows "zip_body w folder wl = (Inr bundle, t)" and "p = out"
  using assms
  by (auto simp: create_zipped_config_def py_raise_def
      split: option.splits prod.splits sum.splits abort.splits if_splits)

section \<open>The packaging rule\<close>

lemma item_selection_mem:
  "(q, c) \<in> item_selection wl wlf (root, r, dirs, files) \<longleftrightarrow>
     os_path_basename root \<in> {''pipes'', ''systems''} \<and> (q, c) \<in> files_selection wl wlf r files"
  by (simp add: item_selection_def)

lemma selection_candidate:
  "(q, c) \<in> selection wl wlf (os_walk_top folder tree) \<longleftrightarrow>
     candidate folder tree q c \<and> (\<not> wl \<or> q \<in> wlf)"
proof (cases tree)
  case None
  then show ?thesis by (simp add: selection_def os_walk_top_def candidate_def)
next
  case (Some t)
  have "(q, c) \<in> selection wl wlf (os_walk_top folder tree) \<longleftrightarrow>
        (\<exists>item \<in> set (os_walk folder [] t). (q, c) \<in> item_selection wl wlf item)"
    by (simp add: selection_def os_walk_top_def Some)
  also have "\<dots> \<longleftrightarrow>
        (\<exists>root r es. dir_at t folder [] root r es \<and>
           (q, c) \<in> item_selection wl wlf (root, r, dir_names es, file_entries es))"
    unfolding os_walk_set(1) by blast
  also have "\<dots> \<longleftrightarrow>
        (\<exists>root r es. dir_at t folder [] root r es \<and>
           os_path_basename root \<in> {''pipes'', ''systems''} \<and>
           (q, c) \<in> files_selection wl wlf r (file_entries es))"
    unfolding item_selection_mem ..
  also have "\<dots> \<longleftrightarrow> candidate folder tree q c \<and> (\<not> wl \<or> q \<in> wlf)"
    unfolding candidate_def Some files_selection_def file_selected_def
    by (simp add: file_entries_set) blast
  finally show ?thesis .
qed

lemma join_rel_slash: "rel \<noteq> [] \<Longrightarrow> CHR ''/'' \<in> set (join_rel (rel @ [name]))"
proof (cases rel)
  case Nil
  then show "rel \<noteq> [] \<Longrightarrow> ?thesis" by simp
next
  case (Cons x xs)
  then show ?thesis by (cases "xs @ [name]") auto
qed

lemma relpath_metadata:
  assumes "os_path_relpath rel name = ''node-metadata.conf.json''"
  shows "rel = [] \<and> name = ''node-metadata.conf.json''"
proof (cases "rel = []")
  case True
  with assms show ?thesis by (simp add: os_path_relpath_def)
next
  case False
  from join_rel_slash[OF this, of name] assms show ?thesis
    by (simp add: os_path_relpath_def)
qed

lemma dir_at_rel:
  "dir_at t path rel path' rel' es \<Longrightarrow>
     (t = Dir es \<and> path' = path \<and> rel' = rel) \<or> length rel < length rel'"
  by (induction rule: dir_at.induct) auto

lemma candidate_metadata:
  assumes "candidate folder tree ''node-metadata.conf.json'' c" and "unique_names tree"
  shows "fs_child tree ''node-metadata.conf.json'' = Some (File c)"
proof -
  from assms(1) obtain t path rel es name where
    t: "tree = Some t" and d: "dir_at t folder [] path rel es" and
    f: "(name, File c) \<in> set es" and
    q: "''node-metadata.conf.json'' = os_path_relpath rel name"
    unfolding candidate_def by blast
  from relpath_metadata[OF q[symmetric]] have r: "rel = []" and n: "name = ''node-metadata.conf.json''"
    by simp_all
  from dir_at_rel[OF d] r have "t = Dir es" by simp
  with t assms(2) f n show ?thesis by (simp add: unique_names_def fs_child_def)
qed

text \<open>
  Claim C3.  When packaging succeeds, a file other than the root metadata file is in
  the bundle, under its path relative to the configuration root and with its content,
  if and only if it resides directly in a directory whose base name is exactly
  \<open>pipes\<close> or \<open>systems\<close>, its name ends with \<open>conf.json\<close>, and the whitelist is
  disabled or lists that path; the root metadata file \<open>node-metadata.conf.json\<close> is in
  the bundle if and only if it exists and the whitelist is disabled or lists it (the
  root directory listing no name twice).  No file that the rule selects is unreadable,
  since packaging would have failed on it.
\<close>

theorem bundle_membership:
  assumes ok: "create_zipped_config w input_folder output_zip whitelist =
                 (Inr (Some (zip_path, bundle)), t)"
  shows "(\<forall>q content. q \<noteq> ''node-metadata.conf.json'' \<longrightarrow>
            (FileEntry q content \<in> set bundle \<longleftrightarrow>
               candidate input_folder (lookup w input_folder) q (Some content) \<and>
               listed w input_folder whitelist q)) \<and>
         (unique_names (lookup w input_folder) \<longrightarrow>
          (\<forall>content. FileEntry ''node-metadata.conf.json'' content \<in> set bundle \<longleftrightarrow>
               fs_child (lookup w input_folder) ''node-metadata.conf.json''
                 = Some (File (Some content)) \<and>
               listed w input_folder whitelist ''node-metadata.conf.json'')) \<and>
         (\<forall>q. \<not> (candidate input_folder (lookup w input_folder) q None \<and>
               listed w input_folder whitelist q))"
proof -
  let ?tree = "lookup w input_folder"
  let ?S = "selection whitelist (whitelist_set w input_folder) (os_walk_top input_folder ?tree)"
  from create_zipped_config_Some(1)[OF ok]
  have b: "set bundle = metadata_entries w input_folder whitelist \<union> entries_of ?S"
    and r: "readable ?S"
    by (rule zip_body_Inr)+
  have sel: "\<And>q c. (q, c) \<in> ?S \<longleftrightarrow>
      candidate input_folder ?tree q c \<and> listed w input_folder whitelist q"
    by (simp add: selection_candidate listed_def)
  have mem: "\<And>q content. FileEntry q content \<in> set bundle \<longleftrightarrow>
      FileEntry q content \<in> metadata_entries w input_folder whitelist \<or>
      (candidate input_folder ?tree q (Some content) \<and> listed w input_folder whitelist q)"
    unfolding b by (simp add: entries_of_def sel)
  have meta: "\<And>q content. FileEntry q content \<in> metadata_entries w input_folder whitelist \<longleftrightarrow>
      q = ''node-metadata.conf.json'' \<and>
      fs_child ?tree ''node-metadata.conf.json'' = Some (File (Some content)) \<and>
      listed w input_folder whitelist ''node-metadata.conf.json''"
    by (auto simp: metadata_entries_def split: option.splits fs_node.splits)
  have A: "\<forall>q content. q \<noteq> ''node-metadata.conf.json'' \<longrightarrow>
            (FileEntry q content \<in> set bundle \<longleftrightarrow>
               candidate input_folder ?tree q (Some content) \<and>
               listed w input_folder whitelist q)"
    by (simp add: mem meta)
  have B: "\<forall>content. FileEntry ''node-metadata.conf.json'' content \<in> set bundle \<longleftrightarrow>
               fs_child ?tree ''node-metadata.conf.json'' = Some (File (Some content)) \<and>
               listed w input_folder whitelist ''node-metadata.conf.json''"
    if uniq: "unique_names ?tree"
    using candidate_metadata[OF _ uniq] by (auto simp: mem meta)
  have C: "\<forall>q. \<not> (candidate input_folder ?tree q None \<and> listed w input_folder whitelist q)"
    using r sel by (auto simp: readable_def)
  from A B C show ?thesis by blast
qed

theorem bundle_membership_witness:
  "fst (create_zipped_config ex_world ''cfg'' ''config.zip'' False) =
     Inr (Some (''config.zip'',
       [FileEntry ''node-metadata.conf.json'' ''M'', FileEntry ''pipes/a.conf.json'' ''A'',
        FileEntry ''systems/b.conf.json'' ''B''])) \<and>
   candidate ''cfg'' (lookup ex_world ''cfg'') ''pipes/a.conf.json'' (Some ''A'') \<and>
   candidate ''cfg'' (lookup ex_world ''cfg'') ''systems/b.conf.json'' (Some ''B'') \<and>
   \<not> candidate ''cfg'' (lookup ex_world ''cfg'') ''other/c.conf.json'' (Some ''C'') \<and>
   fs_child (lookup ex_world ''cfg'') ''node-metadata.conf.json'' = Some (File (Some ''M''))"
proof -
  let ?written = "[FileEntry ''node-metadata.conf.json'' ''M'', FileEntry ''pipes/a.conf.json'' ''A'',
        FileEntry ''systems/b.conf.json'' ''B'']"
  have run: "fst (create_zipped_config ex_world ''cfg'' ''config.zip'' False) =
     Inr (Some (''config.zip'', ?written))"
    by code_simp
  then have ok: "create_zipped_config ex_world ''cfg'' ''config.zip'' False =
     (Inr (Some (''config.zip'', ?written)),
      snd (create_zipped_config ex_world ''cfg'' ''config.zip'' False))"
    by (simp add: prod_eq_iff)
  have uniq: "unique_names (lookup ex_world ''cfg'')"
    by code_simp
  note rule = bundle_membership[OF ok]
  from rule have files: "\<And>q content. q \<noteq> ''node-metadata.conf.json'' \<Longrightarrow>
      FileEntry q content \<in> set ?written \<longleftrightarrow>
        candidate ''cfg'' (lookup ex_world ''cfg'') q (Some content) \<and>
        listed ex_world ''cfg'' False q"
    by blast
  from rule uniq have metadata: "\<And>content.
      FileEntry ''node-metadata.conf.json'' content \<in> set ?written \<longleftrightarrow>
        fs_child (lookup ex_world ''cfg'') ''node-metadata.conf.json'' = Some (File (Some content)) \<and>
        listed ex_world ''cfg'' False ''node-metadata.conf.json''"
    by blast
  have a: "candidate ''cfg'' (lookup ex_world ''cfg'') ''pipes/a.conf.json'' (Some ''A'')"
    using files[of "''pipes/a.conf.json''" "''A''"] by simp
  have b: "candidate ''cfg'' (lookup ex_world ''cfg'') ''systems/b.conf.json'' (Some ''B'')"
    using files[of "''systems/b.conf.json''" "''B''"] by simp
  have c: "\<not> candidate ''cfg'' (lookup ex_world ''cfg'') ''other/c.conf.json'' (Some ''C'')"
    using files[of "''other/c.conf.json''" "''C''"] by (simp add: listed_def)
  have m: "fs_child (lookup ex_world ''cfg'') ''node-metadata.conf.json'' = Some (File (Some ''M''))"
    using metadata[of "''M''"] by simp
  from run a b c m show ?thesis by blast
qed

text \<open>
  Claim C8.  Whitelist filtering only restricts: for the same tree, every entry of the
  bundle produced with the whitelist enabled is an entry of the bundle produced with
  the whitelist disabled.
\<close>

theorem whitelist_restrictive:
  assumes on: "create_zipped_config w input_folder output_zip True =
                 (Inr (Some (zip_path, bundle)), t)"
    and off: "create_zipped_config w input_folder output_zip False =
                 (Inr (Some (zip_path', bundle')), t')"
  shows "set bundle \<subseteq> set bundle'"
proof -
  let ?tree = "lookup w input_folder"
  let ?items = "os_walk_top input_folder ?tree"
  let ?W = "whitelist_set w input_folder"
  from create_zipped_config_Some(1)[OF on]
  have b: "set bundle = metadata_entries w input_folder True \<union> entries_of (selection True ?W ?items)"
    by (rule zip_body_Inr)
  from create_zipped_config_Some(1)[OF off]
  have b': "set bundle' = metadata_entries w input_folder False \<union> entries_of (selection False ?W ?items)"
    by (rule zip_body_Inr)
  have m: "metadata_entries w input_folder True \<subseteq> metadata_entries w input_folder False"
    by (auto simp: metadata_entries_def listed_def)
  have s: "entries_of (selection True ?W ?items) \<subseteq> entries_of (selection False ?W ?items)"
    using selection_mono[of ?W ?items ?W] by (auto simp: entries_of_def)
  from b b' m s show ?thesis by blast
qed

theorem whitelist_restrictive_witness:
  "fst (create_zipped_config ex_world ''cfg'' ''config.zip'' True) =
     Inr (Some (''config.zip'', [FileEntry ''pipes/a.conf.json'' ''A''])) \<and>
   fst (create_zipped_config ex_world ''cfg'' ''config.zip'' False) =
     Inr (Some (''config.zip'',
       [FileEntry ''node-metadata.conf.json'' ''M'', FileEntry ''pipes/a.conf.json'' ''A'',
        FileEntry ''systems/b.conf.json'' ''B''])) \<and>
   set [FileEntry ''pipes/a.conf.json'' ''A''] \<subseteq>
     set [FileEntry ''node-metadata.conf.json'' ''M'', FileEntry ''pipes/a.conf.json'' ''A'',
          FileEntry ''systems/b.conf.json'' ''B'']"
proof -
  have run_on: "fst (create_zipped_config ex_world ''cfg'' ''config.zip'' True) =
     Inr (Some (''config.zip'', [FileEntry ''pipes/a.conf.json'' ''A'']))"
    by code_simp
  have run_off: "fst (create_zipped_config ex_world ''cfg'' ''config.zip'' False) =
     Inr (Some (''config.zip'',
       [FileEntry ''node-metadata.conf.json'' ''M'', FileEntry ''pipes/a.conf.json'' ''A'',
        FileEntry ''systems/b.conf.json'' ''B'']))"
    by code_simp
  from run_on have on: "create_zipped_config ex_world ''cfg'' ''config.zip'' True =
     (Inr (Some (''config.zip'', [FileEntry ''pipes/a.conf.json'' ''A''])),
      snd (create_zipped_config ex_world ''cfg'' ''config.zip'' True))"
    by (simp add: prod_eq_iff)
  from run_off have off: "create_zipped_config ex_world ''cfg'' ''config.zip'' False =
     (Inr (Some (''config.zip'',
       [FileEntry ''node-metadata.conf.json'' ''M'', FileEntry ''pipes/a.conf.json'' ''A'',
        FileEntry ''systems/b.conf.json'' ''B''])),
      snd (create_zipped_config ex_world ''cfg'' ''config.zip'' False))"
    by (simp add: prod_eq_iff)
  from whitelist_restrictive[OF on off] run_on run_off show ?thesis
    by blast
qed

section \<open>Events and results of sequenced computations\<close>

lemma fst_py_bind: "fst (py_bind m f) = (case fst m of Inl a \<Rightarrow> Inl a | Inr x \<Rightarrow> fst (f x))"
  by (cases m; cases "fst m") (auto simp: py_bind_def after_def)

lemma snd_py_bind:
  "snd (py_bind m f) = snd m @ (case fst m of Inl a \<Rightarrow> [] | Inr x \<Rightarrow> snd (f x))"
  by (cases m; cases "fst m") (auto simp: py_bind_def after_def)

lemma fst_py_then: "fst (py_then m k) = (case fst m of Inl a \<Rightarrow> Inl a | Inr x \<Rightarrow> fst k)"
  by (simp add: py_then_def fst_py_bind)

lemma snd_py_then:
  "snd (py_then m k) = snd m @ (case fst m of Inl a \<Rightarrow> [] | Inr x \<Rightarrow> snd k)"
  by (simp add: py_then_def snd_py_bind)

lemma list_all_bind:
  "list_all Q (snd m) \<Longrightarrow> (\<And>x. fst m = Inr x \<Longrightarrow> list_all Q (snd (f x))) \<Longrightarrow>
   list_all Q (snd (py_bind m f))"
  by (cases "fst m") (simp_all add: snd_py_bind)

lemma list_all_then:
  "list_all Q (snd m) \<Longrightarrow> (fst m = Inr () \<Longrightarrow> list_all Q (snd k)) \<Longrightarrow>
   list_all Q (snd (py_then m k))"
  by (cases "fst m") (simp_all add: snd_py_then)

lemma list_all_after:
  "list_all Q t \<Longrightarrow> list_all Q (snd m) \<Longrightarrow> list_all Q (snd (after t m))"
  by (simp add: after_def)

lemma no_exit_bind: "no_exit m \<Longrightarrow> (\<And>x. fst m = Inr x \<Longrightarrow> no_exit (f x)) \<Longrightarrow> no_exit (py_bind m f)"
  by (cases "fst m") (auto simp: no_exit_def fst_py_bind)

lemma no_exit_then: "no_exit m \<Longrightarrow> (fst m = Inr () \<Longrightarrow> no_exit k) \<Longrightarrow> no_exit (py_then m k)"
  by (cases "fst m") (auto simp: no_exit_def fst_py_then)

lemma no_exit_simps:
  "no_exit (after t m) = no_exit m"
  "no_exit (py_return x)"
  "no_exit (py_raise e)"
  "no_exit (logger_info s)"
  "no_exit (logger_error s)"
  "no_exit (api_call c a)"
  "no_exit (Inr y, t)"
  "no_exit (Inl (Raised e), t)"
  by (auto simp: no_exit_def after_def py_return_def py_raise_def logger_info_def
        logger_error_def api_call_def split: sum.splits)

lemma snd_simps:
  "snd (py_return x) = []"
  "snd (py_raise e) = []"
  "snd (sys_exit code) = []"
  "snd (logger_info s) = [Log INFO s]"
  "snd (logger_error s) = [Log ERROR s]"
  "snd (api_call c a) = [Call c]"
  by (auto simp: after_def py_return_def py_raise_def sys_exit_def logger_info_def
        logger_error_def api_call_def split: sum.splits)

lemma fst_simps:
  "fst (after t m) = fst m"
  "fst (py_return x) = Inr x"
  "fst (py_raise e) = Inl (Raised e)"
  "fst (sys_exit code) = Inl (SystemExit code)"
  "fst (logger_info s) = Inr ()"
  "fst (logger_error s) = Inr ()"
  "fst (api_call c a) = (case a of Inl e \<Rightarrow> Inl (Raised e) | Inr x \<Rightarrow> Inr x)"
  by (auto simp: after_def py_return_def py_raise_def sys_exit_def logger_info_def
        logger_error_def api_call_def split: sum.splits)

lemma str_nat_digit: "\<exists>d s. d < 10 \<and> str_nat n = digit_char d # s"
proof (induction n rule: str_nat.induct)
  case (1 n)
  show ?case
  proof (cases "n < 10")
    case True
    then show ?thesis by (subst str_nat.simps) auto
  next
    case False
    with 1 obtain d s where "d < 10" "str_nat (n div 10) = digit_char d # s" by blast
    with False show ?thesis by (subst str_nat.simps) auto
  qed
qed

lemma digit_char_neq: "d < 10 \<Longrightarrow> digit_char d \<noteq> CHR ''=''"
proof
  assume d: "d < 10" and "digit_char d = CHR ''=''"
  then have "of_char (digit_char d) = (of_char CHR ''='' :: nat)" by simp
  with d show False by (simp add: digit_char_def)
qed

lemma plain_count: "\<not> prefix ''=> deploying '' (str_nat n @ s)"
proof -
  obtain d r where "d < 10" "str_nat n = digit_char d # r" using str_nat_digit by blast
  then show ?thesis using digit_char_neq[of d] by auto
qed

section \<open>Events of the packager\<close>

lemma add_files_plain: "list_all plain_log (snd (add_files wl wlf root rel files st))"
proof (induction files arbitrary: st)
  case Nil
  then show ?case by (simp add: py_return_def)
next
  case (Cons fc files)
  obtain f c zipf n where "fc = (f, c)" "st = (zipf, n)" by (cases fc, cases st) auto
  with Cons show ?case
    by (cases c) (auto simp: Let_def py_raise_def after_def)
qed

lemma walk_loop_plain: "list_all plain_log (snd (walk_loop wl wlf items st))"
proof (induction items arbitrary: st)
  case Nil
  then show ?case by (simp add: py_return_def)
next
  case (Cons item items)
  obtain root rel dirs files where item: "item = (root, rel, dirs, files)" by (cases item)
  show ?case
  proof (cases "os_path_basename root \<in> {''pipes'', ''systems''}")
    case False
    with Cons item show ?thesis by simp
  next
    case True
    obtain r1 t1 where a: "add_files wl wlf root rel files st = (r1, t1)"
      by (cases "add_files wl wlf root rel files st")
    have t1: "list_all plain_log t1"
      using add_files_plain[of wl wlf root rel files st] a by simp
    show ?thesis
    proof (cases r1)
      case (Inl e)
      with item True a t1 show ?thesis by simp
    next
      case (Inr st')
      with item True a t1 Cons.IH[of st'] show ?thesis by (simp add: after_def)
    qed
  qed
qed

lemma read_whitelist_plain: "list_all plain_log (snd (read_whitelist w folder tree))"
  by (auto simp: read_whitelist_def Let_def after_def py_return_def py_raise_def
      split: option.splits sum.splits)

lemma read_whitelist_no_exit: "no_exit (read_whitelist w folder tree)"
  by (auto simp: read_whitelist_def Let_def no_exit_simps split: option.splits sum.splits)

lemma add_node_metadata_plain:
  "list_all plain_log (snd (add_node_metadata folder tree wl wlf))"
  by (auto simp: add_node_metadata_def Let_def py_return_def py_raise_def
      split: option.splits sum.splits)

lemma add_node_metadata_no_exit: "no_exit (add_node_metadata folder tree wl wlf)"
  by (auto simp: add_node_metadata_def Let_def no_exit_simps split: option.splits sum.splits)

lemma zip_body_plain: "list_all plain_log (snd (zip_body w folder wl))"
  unfolding zip_body_def Let_def
  by (intro list_all_bind list_all_then)
     (auto simp: read_whitelist_plain add_node_metadata_plain walk_loop_plain snd_simps fst_simps
         snd_py_then plain_count
       split: prod.splits)

lemma zip_body_no_exit: "no_exit (zip_body w folder wl)"
  unfolding zip_body_def Let_def
  by (auto intro!: no_exit_bind no_exit_then
       simp: read_whitelist_no_exit add_node_metadata_no_exit no_exit_simps
       simp: walk_loop_no_exit[unfolded no_exit_def[symmetric]] no_exit_def[of "walk_loop _ _ _ _"] walk_loop_no_exit
       split: prod.splits)

lemma create_zipped_config_plain:
  "list_all plain_log (snd (create_zipped_config w folder out wl))"
  using zip_body_plain[of w folder wl]
  by (auto simp: create_zipped_config_def py_raise_def
      split: option.splits prod.splits sum.splits abort.splits)

lemma create_zipped_config_no_exit: "no_exit (create_zipped_config w folder out wl)"
  using zip_body_no_exit[of w folder wl]
  by (auto simp: create_zipped_config_def py_raise_def no_exit_def
      split: option.splits prod.splits sum.splits abort.splits)

section \<open>Events and results of the client and the steps\<close>

lemma list_all_quiet: "list_all Q t \<Longrightarrow> (\<And>ev. Q ev \<Longrightarrow> \<not> P ev) \<Longrightarrow> quiet P t"
  by (auto simp: quiet_def list_all_iff)

lemma list_all_weaken: "list_all Q t \<Longrightarrow> (\<And>ev. Q ev \<Longrightarrow> Q' ev) \<Longrightarrow> list_all Q' t"
  by (auto simp: list_all_iff)

lemma quiet_append: "quiet P (a @ b) \<longleftrightarrow> quiet P a \<and> quiet P b"
  by (auto simp: quiet_def)

lemma quiet_Cons: "quiet P (ev # t) \<longleftrightarrow> \<not> P ev \<and> quiet P t"
  by (auto simp: quiet_def)

lemma quiet_Nil: "quiet P []"
  by (simp add: quiet_def)

lemma quiet_filter: "quiet P t \<Longrightarrow> filter P t = []"
  by (auto simp: quiet_def filter_empty_conv)

lemma step_attempted_quiet: "step_attempted kind t \<longleftrightarrow> \<not> quiet (is_step_marker kind) t"
  by (auto simp: step_attempted_def quiet_def list_ex_iff)

lemma plain_log_not:
  assumes "plain_log ev"
  shows "\<not> is_step_marker kind ev" "\<not> is_mutating ev" "\<not> is_create ev" "\<not> is_replace ev"
proof -
  from assms obtain l m where ev: "ev = Log l m" and m: "\<not> prefix ''=> deploying '' m"
    by (cases ev) simp_all
  have "prefix (''=> deploying '' @ (kind @ '' using '')) m \<Longrightarrow> prefix ''=> deploying '' m"
    by (rule append_prefixD)
  with m show "\<not> is_step_marker kind ev"
    unfolding ev is_step_marker.simps by blast
  show "\<not> is_mutating ev" "\<not> is_create ev" "\<not> is_replace ev"
    by (simp_all add: ev)
qed

lemma SesamNode_init_plain: "list_all plain_log (snd (SesamNode_init w url jwt))"
  by (auto simp: SesamNode_init_def py_raise_def py_return_def after_def
      split: list.splits sum.splits option.splits prod.splits)

lemma SesamNode_init_no_exit: "no_exit (SesamNode_init w url jwt)"
  by (auto simp: SesamNode_init_def no_exit_simps
      split: list.splits sum.splits option.splits prod.splits)

lemma get_health_events: "snd (get_health n) = [Log INFO (''GET health from '' @ node_url n), Call GetHealth]"
  by (simp add: get_health_def after_def snd_simps)

lemma get_health_no_exit: "no_exit (get_health n)"
  by (simp add: get_health_def no_exit_simps)

lemma health_gate_plain: "list_all plain_log (snd (health_gate w h))"
  by (auto simp: health_gate_def snd_simps snd_py_then fst_simps py_raise_def split: json.splits)

lemma health_gate_exit: "fst (health_gate w h) = Inl (SystemExit code) \<Longrightarrow> code = 1"
  by (auto simp: health_gate_def fst_simps fst_py_then py_raise_def split: json.splits if_splits)

lemma check_required_plain: "list_all plain_log (snd (check_required_env_vars w vars))"
  by (auto simp: check_required_env_vars_def Let_def py_return_def list_all_iff)

lemma check_required_fst:
  "fst (check_required_env_vars w vars) = Inr (\<forall>v\<in>set vars. environ w v \<noteq> None)"
  by (auto simp: check_required_env_vars_def Let_def py_return_def filter_empty_conv)

lemma plain_or: "list_all plain_log t \<Longrightarrow> list_all (\<lambda>ev. plain_log ev \<or> Q ev) t"
  by (auto simp: list_all_iff)

lemma main_start_shape:
  "list_all (\<lambda>ev. plain_log ev \<or> ev = Call GetHealth) (snd (main_start w))"
  by (auto simp: main_start_def Let_def snd_py_bind snd_py_then fst_simps snd_simps
          plain_or[OF check_required_plain] plain_or[OF SesamNode_init_plain]
          plain_or[OF health_gate_plain] get_health_events
        split: sum.splits option.splits)

lemma main_start_exit: "fst (main_start w) = Inl (SystemExit code) \<Longrightarrow> code = 1"
  using SesamNode_init_no_exit get_health_no_exit
  by (auto simp: main_start_def Let_def fst_py_bind fst_py_then fst_simps no_exit_def
          check_required_fst
        dest: health_gate_exit
        split: sum.splits option.splits if_splits)

lemma read_json_file_events: "snd (read_json_file w f) = []"
  by (auto simp: read_json_file_def py_raise_def py_return_def split: option.splits sum.splits)

lemma read_json_file_no_exit: "no_exit (read_json_file w f)"
  by (auto simp: read_json_file_def no_exit_simps split: option.splits sum.splits)

lemma deploy_secrets_shape:
  "list_all (\<lambda>ev. plain_log ev \<or> is_step_marker ''secrets'' ev \<or>
                   (\<not> dry_run \<and> (is_create ev \<or> is_replace ev)))
     (snd (deploy_secrets w n sf dry_run r))"
  by (auto simp: deploy_secrets_def snd_py_bind snd_py_then fst_simps snd_simps
          read_json_file_events put_secrets_def post_secrets_def after_def
        split: sum.splits)

lemma deploy_variables_shape:
  "list_all (\<lambda>ev. plain_log ev \<or> is_step_marker ''variables'' ev \<or>
                   (\<not> dry_run \<and> (\<exists>j. ev = Call (PutEnvVars j))))
     (snd (deploy_variables w n vf dry_run))"
  by (auto simp: deploy_variables_def snd_py_bind snd_py_then fst_simps snd_simps
          read_json_file_events put_env_def after_def
        split: sum.splits)

lemma deploy_config_shape:
  "list_all (\<lambda>ev. plain_log ev \<or> is_step_marker ''config'' ev \<or>
                   (\<not> dry_run \<and> (\<exists>z f. ev = Call (UploadConfig z f))))
     (snd (deploy_config w n cf dry_run wl force))"
  by (auto simp: deploy_config_def snd_py_bind snd_py_then fst_simps snd_simps
          plain_or[OF create_zipped_config_plain] put_config_def after_def
        split: sum.splits option.splits prod.splits)

lemma deploy_secrets_no_exit: "no_exit (deploy_secrets w n sf dry_run r)"
  using read_json_file_no_exit[of w "opt_str sf"]
  by (auto simp: deploy_secrets_def no_exit_def fst_py_bind fst_py_then fst_simps
          put_secrets_def post_secrets_def
        split: sum.splits)

lemma deploy_variables_no_exit: "no_exit (deploy_variables w n vf dry_run)"
  using read_json_file_no_exit[of w "opt_str vf"]
  by (auto simp: deploy_variables_def no_exit_def fst_py_bind fst_py_then fst_simps
          put_env_def
        split: sum.splits)

lemma deploy_config_no_exit: "no_exit (deploy_config w n cf dry_run wl force)"
  using create_zipped_config_no_exit[of w "opt_str cf" "''config.zip''" wl]
  by (auto simp: deploy_config_def no_exit_def fst_py_bind fst_py_then fst_simps
          put_config_def
        split: sum.splits option.splits prod.splits)

section \<open>The run as a whole\<close>

lemma main_fst:
  "fst (main w) = (case fst (main_try w) of Inr u \<Rightarrow> 0 | Inl (SystemExit code) \<Rightarrow> code
                   | Inl (Raised e) \<Rightarrow> 1)"
  by (auto simp: main_def split: prod.splits sum.splits abort.splits)

lemma main_snd:
  "snd (main w) = snd (main_try w) @
     (case fst (main_try w) of
        Inl (Raised e) \<Rightarrow> [Log ERROR (''An error occurred: '' @ exn_str e)]
      | other \<Rightarrow> [])"
  by (auto simp: main_def split: prod.splits sum.splits abort.splits)

lemma main_deploy_no_exit: "no_exit (main_deploy w n)"
  unfolding main_deploy_def secrets_step_def variables_step_def config_step_def
  by (intro no_exit_then deploy_secrets_no_exit deploy_variables_no_exit deploy_config_no_exit)

lemma no_exit_cases:
  assumes "no_exit m"
  obtains (ok) x where "fst m = Inr x" | (raised) e where "fst m = Inl (Raised e)"
proof (cases "fst m")
  case (Inl a)
  with assms raised show ?thesis by (cases a) (auto simp: no_exit_def)
next
  case (Inr x)
  with ok show ?thesis by blast
qed

lemma main_failed_start:
  assumes "isl (fst (main_start w))"
  shows "fst (main w) = 1"
    and "list_all (\<lambda>ev. plain_log ev \<or> ev = Call GetHealth) (snd (main w))"
proof -
  from assms obtain a where a: "fst (main_start w) = Inl a" by (cases "fst (main_start w)") auto
  then have t: "fst (main_try w) = Inl a" "snd (main_try w) = snd (main_start w)"
    by (simp_all add: main_try_def fst_py_bind snd_py_bind)
  show "fst (main w) = 1"
    using t a main_start_exit[of w] by (cases a) (auto simp: main_fst)
  show "list_all (\<lambda>ev. plain_log ev \<or> ev = Call GetHealth) (snd (main w))"
    using t main_start_shape[of w] by (cases a) (auto simp: main_snd)
qed

lemma main_after_start:
  assumes "fst (main_start w) = Inr n"
  shows "fst (main w) = (if fst (main_deploy w n) = Inr () then 0 else 1)"
    and "snd (main w) = snd (main_start w) @ snd (main_deploy w n) @
           (case fst (main_deploy w n) of
              Inl (Raised e) \<Rightarrow> [Log ERROR (''An error occurred: '' @ exn_str e)]
            | other \<Rightarrow> [])"
proof -
  have t: "fst (main_try w) = fst (main_deploy w n)"
     "snd (main_try w) = snd (main_start w) @ snd (main_deploy w n)"
    using assms by (simp_all add: main_try_def fst_py_bind snd_py_bind)
  show "fst (main w) = (if fst (main_deploy w n) = Inr () then 0 else 1)"
    using main_deploy_no_exit[of w n]
    by (rule no_exit_cases) (auto simp: main_fst t)
  show "snd (main w) = snd (main_start w) @ snd (main_deploy w n) @
           (case fst (main_deploy w n) of
              Inl (Raised e) \<Rightarrow> [Log ERROR (''An error occurred: '' @ exn_str e)]
            | other \<Rightarrow> [])"
    by (simp add: main_snd t)
qed

lemma markers_distinct:
  "is_step_marker ''secrets'' ev \<Longrightarrow> \<not> is_step_marker ''variables'' ev"
  "is_step_marker ''secrets'' ev \<Longrightarrow> \<not> is_step_marker ''config'' ev"
  "is_step_marker ''variables'' ev \<Longrightarrow> \<not> is_step_marker ''config'' ev"
proof -
  have d: "\<And>a b m. prefix a m \<Longrightarrow> prefix b m \<Longrightarrow> \<not> prefix a b \<Longrightarrow> \<not> prefix b a \<Longrightarrow> False"
    using prefix_same_cases by blast
  show "is_step_marker ''secrets'' ev \<Longrightarrow> \<not> is_step_marker ''variables'' ev"
    by (cases ev) (auto dest: d)
  show "is_step_marker ''secrets'' ev \<Longrightarrow> \<not> is_step_marker ''config'' ev"
    by (cases ev) (auto dest: d)
  show "is_step_marker ''variables'' ev \<Longrightarrow> \<not> is_step_marker ''config'' ev"
    by (cases ev) (auto dest: d)
qed

lemma marker_is_log:
  "is_step_marker kind ev \<Longrightarrow> \<not> is_mutating ev \<and> \<not> is_create ev \<and> \<not> is_replace ev"
  by (cases ev) auto

lemma start_quiet:
  "quiet (is_step_marker kind) (snd (main_start w))"
  "quiet is_mutating (snd (main_start w))"
  "quiet is_create (snd (main_start w))"
  "quiet is_replace (snd (main_start w))"
  by (rule list_all_quiet[OF main_start_shape]; auto dest: plain_log_not)+

lemma secrets_quiet:
  "quiet (is_step_marker ''variables'') (snd (deploy_secrets w n sf d r))"
  "quiet (is_step_marker ''config'') (snd (deploy_secrets w n sf d r))"
  "quiet is_mutating (snd (deploy_secrets w n sf True r))"
  by (rule list_all_quiet[OF deploy_secrets_shape];
      auto dest: plain_log_not markers_distinct marker_is_log elim: is_create.elims is_replace.elims)+

lemma variables_quiet:
  "quiet (is_step_marker ''config'') (snd (deploy_variables w n vf d))"
  "quiet is_create (snd (deploy_variables w n vf d))"
  "quiet is_replace (snd (deploy_variables w n vf d))"
  "quiet is_mutating (snd (deploy_variables w n vf True))"
  by (rule list_all_quiet[OF deploy_variables_shape];
      auto dest: plain_log_not markers_distinct marker_is_log)+

lemma config_quiet:
  "quiet is_create (snd (deploy_config w n cf d wl fc))"
  "quiet is_replace (snd (deploy_config w n cf d wl fc))"
  "quiet is_mutating (snd (deploy_config w n cf True wl fc))"
  by (rule list_all_quiet[OF deploy_config_shape];
      auto dest: plain_log_not markers_distinct marker_is_log)+

section \<open>Flags and required inputs\<close>

lemma str_lower_defaults: "str_lower ''True'' = ''true''" "str_lower ''False'' = ''false''"
  by code_simp+

text \<open>
  Claim C10.  \<^verbatim>\<open>parse_bool_env\<close> gives true exactly for the strings that lower-case to
  \<open>true\<close>, \<open>1\<close> or \<open>yes\<close>, false for those that lower-case to \<open>false\<close>, \<open>0\<close> or
  \<open>no\<close>, and its default for every other value.  \<^verbatim>\<open>main\<close> never passes a default, so
  every flag is false on an unrecognised value; the dry-run flag is true when its
  variable is absent (the text \<open>True\<close> is parsed then) and false on any supplied value
  that is not recognised as true.
\<close>

theorem flag_values:
  "parse_bool_env (Some v) d =
     (if str_lower v \<in> {''true'', ''1'', ''yes''} then True
      else if str_lower v \<in> {''false'', ''0'', ''no''} then False
      else d) \<and>
   dry_run_flag w =
     (case environ w ''INPUT_DRY_RUN'' of
        None \<Rightarrow> True | Some x \<Rightarrow> str_lower x \<in> {''true'', ''1'', ''yes''}) \<and>
   force_config_flag w =
     (case environ w ''INPUT_FORCE_CONFIG'' of
        None \<Rightarrow> False | Some x \<Rightarrow> str_lower x \<in> {''true'', ''1'', ''yes''}) \<and>
   replace_secrets_flag w =
     (case environ w ''INPUT_REPLACE_SECRETS'' of
        None \<Rightarrow> False | Some x \<Rightarrow> str_lower x \<in> {''true'', ''1'', ''yes''}) \<and>
   use_whitelist_flag w =
     (case environ w ''INPUT_USE_WHITELIST'' of
        None \<Rightarrow> False | Some x \<Rightarrow> str_lower x \<in> {''true'', ''1'', ''yes''})"
  by (simp add: parse_bool_env_def Let_def dry_run_flag_def force_config_flag_def
        replace_secrets_flag_def use_whitelist_flag_def environ_get_def str_lower_defaults
      split: option.splits)

theorem flag_values_witness:
  "\<not> dry_run_flag (ex_world\<lparr>environ := (environ ex_world)(''INPUT_DRY_RUN'' \<mapsto> ''maybe'')\<rparr>) \<and>
   dry_run_flag (ex_world\<lparr>environ := (environ ex_world)(''INPUT_DRY_RUN'' := None)\<rparr>) \<and>
   parse_bool_env (Some ''YeS'') False \<and>
   \<not> parse_bool_env (Some ''No'') True"
proof -
  have l: "str_lower ''maybe'' = ''maybe''" "str_lower ''YeS'' = ''yes''" "str_lower ''No'' = ''no''"
    by code_simp+
  have a: "\<not> dry_run_flag (ex_world\<lparr>environ := (environ ex_world)(''INPUT_DRY_RUN'' \<mapsto> ''maybe'')\<rparr>)"
    using flag_values[of "''maybe''" False
        "ex_world\<lparr>environ := (environ ex_world)(''INPUT_DRY_RUN'' \<mapsto> ''maybe'')\<rparr>"]
    by (simp add: l)
  have b: "dry_run_flag (ex_world\<lparr>environ := (environ ex_world)(''INPUT_DRY_RUN'' := None)\<rparr>)"
    using flag_values[of "''maybe''" False
        "ex_world\<lparr>environ := (environ ex_world)(''INPUT_DRY_RUN'' := None)\<rparr>"]
    by simp
  have c: "parse_bool_env (Some ''YeS'') False"
    using flag_values[of "''YeS''" False ex_world] by (simp add: l)
  have d: "\<not> parse_bool_env (Some ''No'') True"
    using flag_values[of "''No''" True ex_world] by (simp add: l)
  from a b c d show ?thesis by blast
qed

text \<open>
  Each step logs its marker first and only when its source is supplied, and no other
  part of a run logs that marker; a run that gets past the check of the required
  variables has all three of them set.
\<close>

lemma step_attempted_append:
  "step_attempted kind (a @ b) \<longleftrightarrow> step_attempted kind a \<or> step_attempted kind b"
  by (simp add: step_attempted_def)

lemma step_attempted_Nil: "\<not> step_attempted kind []"
  by (simp add: step_attempted_def)

lemma markers_distinct_rev:
  "is_step_marker ''variables'' ev \<Longrightarrow> \<not> is_step_marker ''secrets'' ev"
  "is_step_marker ''config'' ev \<Longrightarrow> \<not> is_step_marker ''secrets'' ev"
  "is_step_marker ''config'' ev \<Longrightarrow> \<not> is_step_marker ''variables'' ev"
  using markers_distinct by blast+

lemma other_markers:
  "quiet (is_step_marker ''secrets'') (snd (deploy_variables w n vf d))"
  "quiet (is_step_marker ''secrets'') (snd (deploy_config w n cf d wl fc))"
  "quiet (is_step_marker ''variables'') (snd (deploy_config w n cf d wl fc))"
    apply (rule list_all_quiet[OF deploy_variables_shape];
           auto dest: plain_log_not markers_distinct_rev)
   apply (rule list_all_quiet[OF deploy_config_shape];
          auto dest: plain_log_not markers_distinct_rev)
  apply (rule list_all_quiet[OF deploy_config_shape];
         auto dest: plain_log_not markers_distinct_rev)
  done

lemma not_attempted:
  "\<not> step_attempted ''variables'' (snd (deploy_secrets w n src d r))"
  "\<not> step_attempted ''config'' (snd (deploy_secrets w n src d r))"
  "\<not> step_attempted ''secrets'' (snd (deploy_variables w n src d))"
  "\<not> step_attempted ''config'' (snd (deploy_variables w n src d))"
  "\<not> step_attempted ''secrets'' (snd (deploy_config w n src d wl fc))"
  "\<not> step_attempted ''variables'' (snd (deploy_config w n src d wl fc))"
  by (simp_all add: step_attempted_quiet secrets_quiet variables_quiet other_markers)

lemma supplied_attempted:
  "step_attempted ''secrets'' (snd (deploy_secrets w n src d r)) = supplied src"
  "step_attempted ''variables'' (snd (deploy_variables w n src d)) = supplied src"
  "step_attempted ''config'' (snd (deploy_config w n src d wl fc)) = supplied src"
  by (simp_all add: deploy_secrets_def deploy_variables_def deploy_config_def snd_py_then
        snd_simps step_attempted_def)

lemma error_log_attempted:
  "\<not> step_attempted kind
       (case a of Inl (Raised e) \<Rightarrow> [Log ERROR (''An error occurred: '' @ f e)] | other \<Rightarrow> [])"
  by (auto simp: step_attempted_def split: sum.splits abort.splits)

lemma main_start_required:
  assumes "fst (main_start w) = Inr n"
  shows "environ w ''INPUT_NODE'' \<noteq> None" "environ w ''INPUT_JWT'' \<noteq> None"
        "environ w ''INPUT_CONFIG_FOLDER'' \<noteq> None"
proof -
  have "fst (check_required_env_vars w [''INPUT_NODE'', ''INPUT_JWT'', ''INPUT_CONFIG_FOLDER''])
          = Inr True"
    using assms
    by (auto simp: main_start_def fst_py_bind fst_simps check_required_fst split: if_splits)
  then show "environ w ''INPUT_NODE'' \<noteq> None" "environ w ''INPUT_JWT'' \<noteq> None"
        "environ w ''INPUT_CONFIG_FOLDER'' \<noteq> None"
    by (simp_all add: check_required_fst)
qed

lemma run_attempts:
  assumes start: "fst (main_start w) = Inr n"
  shows "step_attempted ''secrets'' (snd (main w)) = supplied (environ w ''INPUT_SECRETS_FILE'')"
    and "step_attempted ''variables'' (snd (main w)) =
           (fst (secrets_step w n) = Inr () \<and> supplied (environ w ''INPUT_VARIABLES_FILE''))"
    and "step_attempted ''config'' (snd (main w)) =
           (fst (secrets_step w n) = Inr () \<and> fst (variables_step w n) = Inr () \<and>
            supplied (environ w ''INPUT_CONFIG_FOLDER''))"
proof -
  note after = main_after_start(2)[OF start]
  have q: "\<not> step_attempted kind (snd (main_start w))" for kind
    by (simp add: step_attempted_quiet start_quiet)
  have s: "step_attempted ''secrets'' (snd (secrets_step w n)) = supplied (environ w ''INPUT_SECRETS_FILE'')"
          "\<not> step_attempted ''variables'' (snd (secrets_step w n))"
          "\<not> step_attempted ''config'' (snd (secrets_step w n))"
    by (simp_all add: secrets_step_def supplied_attempted not_attempted)
  have v: "\<not> step_attempted ''secrets'' (snd (variables_step w n))"
          "step_attempted ''variables'' (snd (variables_step w n)) = supplied (environ w ''INPUT_VARIABLES_FILE'')"
          "\<not> step_attempted ''config'' (snd (variables_step w n))"
    by (simp_all add: variables_step_def supplied_attempted not_attempted)
  have c: "\<not> step_attempted ''secrets'' (snd (config_step w n))"
          "\<not> step_attempted ''variables'' (snd (config_step w n))"
          "step_attempted ''config'' (snd (config_step w n)) = supplied (environ w ''INPUT_CONFIG_FOLDER'')"
    by (simp_all add: config_step_def supplied_attempted not_attempted)
  show "step_attempted ''secrets'' (snd (main w)) = supplied (environ w ''INPUT_SECRETS_FILE'')"
    by (cases "fst (secrets_step w n)"; cases "fst (variables_step w n)")
       (simp_all add: after main_deploy_def snd_py_then step_attempted_append step_attempted_Nil
          error_log_attempted q s v c)
  show "step_attempted ''variables'' (snd (main w)) =
           (fst (secrets_step w n) = Inr () \<and> supplied (environ w ''INPUT_VARIABLES_FILE''))"
    by (cases "fst (secrets_step w n)"; cases "fst (variables_step w n)")
       (simp_all add: after main_deploy_def snd_py_then step_attempted_append step_attempted_Nil
          error_log_attempted q s v c)
  show "step_attempted ''config'' (snd (main w)) =
           (fst (secrets_step w n) = Inr () \<and> fst (variables_step w n) = Inr () \<and>
            supplied (environ w ''INPUT_CONFIG_FOLDER''))"
    by (cases "fst (secrets_step w n)"; cases "fst (variables_step w n)")
       (simp_all add: after main_deploy_def snd_py_then step_attempted_append step_attempted_Nil
          error_log_attempted q s v c)
qed

text \<open>
  Claim C5, as amended.  A run in which \<open>INPUT_CONFIG_FOLDER\<close> is not set fails the
  check of the required variables: exit code 1, nothing but log records, no node call.
  A step whose source is not supplied (the variable absent or empty) returns at once
  without any event, and a step is attempted exactly when its source is supplied.  In
  a run that reaches the deployment steps the config folder variable is set; the secrets
  step is attempted exactly when its file is supplied, the variables step exactly when
  its file is supplied and the secrets step returned, and the config step exactly when
  both earlier steps returned and the config folder is not the empty string.
\<close>

theorem config_folder_required:
  "(environ w ''INPUT_CONFIG_FOLDER'' = None \<longrightarrow>
      fst (main w) = 1 \<and> calls_of (snd (main w)) = [] \<and> list_all plain_log (snd (main w))) \<and>
   (\<not> supplied src \<longrightarrow>
      deploy_secrets w node src dry_run replace_secrets = (Inr (), []) \<and>
      deploy_variables w node src dry_run = (Inr (), []) \<and>
      deploy_config w node src dry_run use_whitelist force_config = (Inr (), [])) \<and>
   step_attempted ''secrets'' (snd (deploy_secrets w node src dry_run replace_secrets)) =
     supplied src \<and>
   step_attempted ''variables'' (snd (deploy_variables w node src dry_run)) = supplied src \<and>
   step_attempted ''config'' (snd (deploy_config w node src dry_run use_whitelist force_config)) =
     supplied src \<and>
   (fst (main_start w) = Inr node \<longrightarrow>
      (\<exists>config_folder. environ w ''INPUT_CONFIG_FOLDER'' = Some config_folder) \<and>
      step_attempted ''secrets'' (snd (main w)) = supplied (environ w ''INPUT_SECRETS_FILE'') \<and>
      step_attempted ''variables'' (snd (main w)) =
        (fst (secrets_step w node) = Inr () \<and> supplied (environ w ''INPUT_VARIABLES_FILE'')) \<and>
      step_attempted ''config'' (snd (main w)) =
        (fst (secrets_step w node) = Inr () \<and> fst (variables_step w node) = Inr () \<and>
         environ w ''INPUT_CONFIG_FOLDER'' \<noteq> Some []))"
proof -
  have steps: "\<not> supplied src \<Longrightarrow>
      deploy_secrets w node src dry_run replace_secrets = (Inr (), []) \<and>
      deploy_variables w node src dry_run = (Inr (), []) \<and>
      deploy_config w node src dry_run use_whitelist force_config = (Inr (), [])"
    by (simp add: deploy_secrets_def deploy_variables_def deploy_config_def py_return_def)
  have missing: "fst (main w) = 1 \<and> calls_of (snd (main w)) = [] \<and> list_all plain_log (snd (main w))"
    if none: "environ w ''INPUT_CONFIG_FOLDER'' = None"
  proof -
    have c: "fst (check_required_env_vars w [''INPUT_NODE'', ''INPUT_JWT'', ''INPUT_CONFIG_FOLDER''])
             = Inr False"
      using none by (simp add: check_required_fst)
    then have s: "fst (main_start w) = Inl (SystemExit 1)"
       "snd (main_start w) =
          snd (check_required_env_vars w [''INPUT_NODE'', ''INPUT_JWT'', ''INPUT_CONFIG_FOLDER''])"
      by (simp_all add: main_start_def fst_py_bind snd_py_bind fst_simps snd_simps)
    then have t: "fst (main_try w) = Inl (SystemExit 1)"
      "snd (main_try w) =
          snd (check_required_env_vars w [''INPUT_NODE'', ''INPUT_JWT'', ''INPUT_CONFIG_FOLDER''])"
      by (simp_all add: main_try_def fst_py_bind snd_py_bind)
    have p: "list_all plain_log (snd (main w))"
      using check_required_plain[of w] by (simp add: main_snd t)
    have "calls_of t = []" if "list_all plain_log t" for t
      using that by (induction t rule: calls_of.induct) auto
    with p show ?thesis by (simp add: main_fst t)
  qed
  have run: "(\<exists>config_folder. environ w ''INPUT_CONFIG_FOLDER'' = Some config_folder) \<and>
      step_attempted ''secrets'' (snd (main w)) = supplied (environ w ''INPUT_SECRETS_FILE'') \<and>
      step_attempted ''variables'' (snd (main w)) =
        (fst (secrets_step w node) = Inr () \<and> supplied (environ w ''INPUT_VARIABLES_FILE'')) \<and>
      step_attempted ''config'' (snd (main w)) =
        (fst (secrets_step w node) = Inr () \<and> fst (variables_step w node) = Inr () \<and>
         environ w ''INPUT_CONFIG_FOLDER'' \<noteq> Some [])"
    if start: "fst (main_start w) = Inr node"
  proof -
    from main_start_required(3)[OF start]
    obtain config_folder where cf: "environ w ''INPUT_CONFIG_FOLDER'' = Some config_folder"
      by blast
    then have "supplied (environ w ''INPUT_CONFIG_FOLDER'') =
                 (environ w ''INPUT_CONFIG_FOLDER'' \<noteq> Some [])"
      by (simp add: supplied_def)
    with cf run_attempts[OF start] show ?thesis
      by simp
  qed
  from steps missing run supplied_attempted[of w node src] show ?thesis
    by blast
qed

theorem config_folder_required_witness:
  "environ no_config_world ''INPUT_CONFIG_FOLDER'' = None \<and>
   fst (main no_config_world) = 1 \<and> calls_of (snd (main no_config_world)) = [] \<and>
   \<not> supplied (Some []) \<and>
   deploy_config ex_world ex_node (Some []) False False False = (Inr (), []) \<and>
   supplied (Some ''vars.json'') \<and>
   step_attempted ''secrets'' (snd (deploy_secrets ex_world ex_node (Some ''vars.json'') False False)) \<and>
   step_attempted ''variables'' (snd (deploy_variables ex_world ex_node (Some ''vars.json'') False)) \<and>
   step_attempted ''config'' (snd (deploy_config ex_world ex_node (Some ''vars.json'') False False False)) \<and>
   step_attempted ''secrets'' (snd (main ex_world)) \<and>
   step_attempted ''variables'' (snd (main ex_world)) \<and>
   step_attempted ''config'' (snd (main ex_world)) \<and>
   environ empty_config_world ''INPUT_CONFIG_FOLDER'' = Some [] \<and>
   step_attempted ''variables'' (snd (main empty_config_world)) \<and>
   \<not> step_attempted ''config'' (snd (main empty_config_world))"
proof -
  let ?node = "projr (fst (main_start ex_world))"
  let ?node' = "projr (fst (main_start empty_config_world))"
  have n: "environ no_config_world ''INPUT_CONFIG_FOLDER'' = None"
    by code_simp
  have e: "\<not> supplied (Some [])" and v: "supplied (Some ''vars.json'')"
    by code_simp+
  have "\<not> isl (fst (main_start ex_world))" "\<not> isl (fst (main_start empty_config_world))"
    by code_simp+
  then have start: "fst (main_start ex_world) = Inr ?node"
    "fst (main_start empty_config_world) = Inr ?node'"
    by simp_all
  have env: "supplied (environ ex_world ''INPUT_SECRETS_FILE'')"
    "supplied (environ ex_world ''INPUT_VARIABLES_FILE'')"
    "environ ex_world ''INPUT_CONFIG_FOLDER'' \<noteq> Some []"
    "supplied (environ empty_config_world ''INPUT_VARIABLES_FILE'')"
    "environ empty_config_world ''INPUT_CONFIG_FOLDER'' = Some []"
    by code_simp+
  have ok: "fst (secrets_step ex_world ?node) = Inr ()"
    "fst (variables_step ex_world ?node) = Inr ()"
    "fst (secrets_step empty_config_world ?node') = Inr ()"
    by code_simp+
  from config_folder_required[where w=no_config_world and src="Some []" and node=ex_node
      and dry_run=False and replace_secrets=False and use_whitelist=False and force_config=False]
    config_folder_required[where w=ex_world and src="Some []" and node=ex_node
      and dry_run=False and replace_secrets=False and use_whitelist=False and force_config=False]
    n e
  have a: "fst (main no_config_world) = 1 \<and> calls_of (snd (main no_config_world)) = [] \<and>
     deploy_config ex_world ex_node (Some []) False False False = (Inr (), [])"
    by blast
  from config_folder_required[where w=ex_world and src="Some ''vars.json''" and node=ex_node
      and dry_run=False and replace_secrets=False and use_whitelist=False and force_config=False] v
  have b: "step_attempted ''secrets'' (snd (deploy_secrets ex_world ex_node (Some ''vars.json'') False False)) \<and>
   step_attempted ''variables'' (snd (deploy_variables ex_world ex_node (Some ''vars.json'') False)) \<and>
   step_attempted ''config'' (snd (deploy_config ex_world ex_node (Some ''vars.json'') False False False))"
    by blast
  from config_folder_required[where w=ex_world and src="Some []" and node="?node"
      and dry_run=False and replace_secrets=False and use_whitelist=False and force_config=False]
    start(1) env ok
  have c: "step_attempted ''secrets'' (snd (main ex_world)) \<and>
   step_attempted ''variables'' (snd (main ex_world)) \<and>
   step_attempted ''config'' (snd (main ex_world))"
    by blast
  from config_folder_required[where w=empty_config_world and src="Some []" and node="?node'"
      and dry_run=False and replace_secrets=False and use_whitelist=False and force_config=False]
    start(2) env ok
  have d: "step_attempted ''variables'' (snd (main empty_config_world)) \<and>
   \<not> step_attempted ''config'' (snd (main empty_config_world))"
    by blast
  from n e v a b c d env(5) show ?thesis by blast
qed

text \<open>
  Claim C5 as stated fails: with the secrets and variables files supplied and no config
  folder variable, the run does not proceed; it logs the missing variable and exits
  with 1.
\<close>

theorem missing_config_folder_counterexample:
  "environ no_config_world ''INPUT_CONFIG_FOLDER'' = None \<and>
   supplied (environ no_config_world ''INPUT_SECRETS_FILE'') \<and>
   supplied (environ no_config_world ''INPUT_VARIABLES_FILE'') \<and>
   main no_config_world =
     (1, [Log ERROR (''Required environment variable '' @ quote ''INPUT_CONFIG_FOLDER''
                     @ '' is missing.'')])"
  by code_simp

section \<open>Dry run\<close>

lemma calls_of_append: "calls_of (a @ b) = calls_of a @ calls_of b"
  by (induction a rule: calls_of.induct) auto

lemma calls_of_logs:
  "list_all Q t \<Longrightarrow> (\<And>ev. Q ev \<Longrightarrow> \<exists>l m. ev = Log l m) \<Longrightarrow> calls_of t = []"
  by (induction t rule: calls_of.induct) auto

lemma plain_is_log: "plain_log ev \<Longrightarrow> \<exists>l m. ev = Log l m"
  by (cases ev) auto

lemma marker_is_log': "is_step_marker kind ev \<Longrightarrow> \<exists>l m. ev = Log l m"
  by (cases ev) auto

lemma dry_steps_calls:
  "calls_of (snd (deploy_secrets w n sf True r)) = []"
  "calls_of (snd (deploy_variables w n vf True)) = []"
  "calls_of (snd (deploy_config w n cf True wl fc)) = []"
    apply (rule calls_of_logs[OF deploy_secrets_shape]; auto dest: plain_is_log marker_is_log')
   apply (rule calls_of_logs[OF deploy_variables_shape]; auto dest: plain_is_log marker_is_log')
  apply (rule calls_of_logs[OF deploy_config_shape]; auto dest: plain_is_log marker_is_log')
  done

lemma dry_deploy:
  assumes "dry_run_flag w"
  shows "calls_of (snd (main_deploy w n)) = []" and "quiet is_mutating (snd (main_deploy w n))"
  using assms
  by (auto simp: main_deploy_def secrets_step_def variables_step_def config_step_def snd_py_then
        calls_of_append dry_steps_calls quiet_append quiet_Nil secrets_quiet variables_quiet
        config_quiet
      split: sum.splits)

lemma error_log_quiet:
  "quiet is_mutating (case a of Inl (Raised e) \<Rightarrow> [Log ERROR (f e)] | other \<Rightarrow> [])"
  "calls_of (case a of Inl (Raised e) \<Rightarrow> [Log ERROR (f e)] | other \<Rightarrow> []) = []"
  by (auto simp: quiet_def split: sum.splits abort.splits)

lemma start_calls:
  assumes "fst (check_required_env_vars w [''INPUT_NODE'', ''INPUT_JWT'', ''INPUT_CONFIG_FOLDER''])
             = Inr True"
    and "environ w ''INPUT_JWT'' = Some jwt"
    and "fst (SesamNode_init w (''https://'' @ opt_str (environ w ''INPUT_NODE'') @ ''/api'') jwt)
           = Inr node"
  shows "calls_of (snd (main_start w)) = [GetHealth]"
  using assms
  by (auto simp: main_start_def Let_def snd_py_bind snd_py_then fst_simps snd_simps calls_of_append
        get_health_events
        calls_of_logs[OF check_required_plain plain_is_log]
        calls_of_logs[OF SesamNode_init_plain plain_is_log]
        calls_of_logs[OF health_gate_plain plain_is_log]
      split: sum.splits)

text \<open>
  Claim C4, as amended.  In every run with the dry-run flag true no mutating call is
  made; and when the required variables are present and the client is constructed (the
  token decodes), the calls of the run are exactly one health check.
\<close>

theorem dry_run_calls:
  assumes dry: "dry_run_flag w"
  shows "quiet is_mutating (snd (main w)) \<and>
         (\<forall>jwt node.
            fst (check_required_env_vars w [''INPUT_NODE'', ''INPUT_JWT'', ''INPUT_CONFIG_FOLDER''])
              = Inr True \<and>
            environ w ''INPUT_JWT'' = Some jwt \<and>
            fst (SesamNode_init w (''https://'' @ opt_str (environ w ''INPUT_NODE'') @ ''/api'') jwt)
              = Inr node \<longrightarrow>
            calls_of (snd (main w)) = [GetHealth])"
proof (cases "fst (main_start w)")
  case (Inl a)
  then have failed: "isl (fst (main_start w))" by simp
  have t: "snd (main_try w) = snd (main_start w)"
    using Inl by (simp add: main_try_def snd_py_bind)
  have "quiet is_mutating (snd (main w))"
    by (rule list_all_quiet[OF main_failed_start(2)[OF failed]]) (auto dest: plain_log_not)
  moreover have "calls_of (snd (main w)) = calls_of (snd (main_start w))"
    by (simp add: main_snd t calls_of_append error_log_quiet)
  ultimately show ?thesis using start_calls by auto
next
  case (Inr n)
  note after = main_after_start[OF Inr]
  have "quiet is_mutating (snd (main w))"
    by (simp add: after quiet_append start_quiet dry_deploy[OF dry] error_log_quiet)
  moreover have "calls_of (snd (main w)) = calls_of (snd (main_start w))"
    by (simp add: after calls_of_append dry_deploy[OF dry] error_log_quiet)
  ultimately show ?thesis using start_calls by auto
qed

section \<open>The secrets step\<close>

theorem dry_run_calls_witness:
  "dry_run_flag dry_world \<and> quiet is_mutating (snd (main dry_world)) \<and>
   calls_of (snd (main dry_world)) = [GetHealth]"
proof -
  let ?url = "''https://'' @ opt_str (environ dry_world ''INPUT_NODE'') @ ''/api''"
  have dry: "dry_run_flag dry_world"
    by code_simp
  have pre: "fst (check_required_env_vars dry_world
                [''INPUT_NODE'', ''INPUT_JWT'', ''INPUT_CONFIG_FOLDER'']) = Inr True"
    by code_simp
  have jwt: "environ dry_world ''INPUT_JWT'' = Some ''h.p.s''"
    by code_simp
  have "\<not> isl (fst (SesamNode_init dry_world ?url ''h.p.s''))"
    by code_simp
  then have init: "fst (SesamNode_init dry_world ?url ''h.p.s'') =
                     Inr (projr (fst (SesamNode_init dry_world ?url ''h.p.s'')))"
    by simp
  from dry_run_calls[OF dry] pre jwt init dry show ?thesis by blast
qed

text \<open>
  Claim C4 as stated fails: a token without two dots passes the check of the required
  variables, the constructor raises on unpacking it, and the run exits with 1 without
  any call, the health check included.
\<close>

theorem bad_token_counterexample:
  "dry_run_flag bad_token_world \<and>
   fst (check_required_env_vars bad_token_world
          [''INPUT_NODE'', ''INPUT_JWT'', ''INPUT_CONFIG_FOLDER'']) = Inr True \<and>
   calls_of (snd (main bad_token_world)) = [] \<and>
   main bad_token_world =
     (1, [Log ERROR ''An error occurred: not enough values to unpack (expected 3)''])"
  by code_simp

lemma secrets_upload:
  assumes "supplied sf" and "fst (read_json_file w (opt_str sf)) = Inr j"
  shows "snd (deploy_secrets w n sf False r) =
           [Log INFO (''=> deploying secrets using file: '' @ opt_str sf),
            Log INFO ''dry_run: False'',
            Log INFO (''replace_secrets: '' @ str_bool r),
            Log INFO ((if r then ''PUT secrets to '' else ''POST secrets to '') @ node_url n),
            Call (if r then PutSecrets j else PostSecrets j)] @
           (case (if r then api_put_secrets (api_connection n) j
                  else api_post_secrets (api_connection n) j) of
              Inl e \<Rightarrow> [] | Inr answer \<Rightarrow> [Log INFO (''result: '' @ answer)])"
  using assms
  by (auto simp: deploy_secrets_def snd_py_bind snd_py_then fst_py_bind fst_simps snd_simps
        read_json_file_events put_secrets_def post_secrets_def after_def str_bool_def api_call_def
      split: sum.splits)

text \<open>
  Claim C6.  With a secrets source supplied whose content parses and dry run off, the
  secrets step makes exactly one call: the replace call (\<^verbatim>\<open>put_secrets\<close>) when
  \<open>replace_secrets\<close> is true, the create call (\<^verbatim>\<open>post_secrets\<close>) otherwise, with the
  parsed content.  In a whole run that reaches the deployment steps, the replace and
  create calls among all events number one and zero, or zero and one, accordingly.
\<close>

theorem secrets_create_or_replace:
  "(supplied secrets_file \<and> fst (read_json_file w (opt_str secrets_file)) = Inr secrets_json \<longrightarrow>
      calls_of (snd (deploy_secrets w node secrets_file False True)) = [PutSecrets secrets_json] \<and>
      calls_of (snd (deploy_secrets w node secrets_file False False)) = [PostSecrets secrets_json]) \<and>
   (fst (main_start w) = Inr node \<and> \<not> dry_run_flag w \<and>
    supplied (environ w ''INPUT_SECRETS_FILE'') \<and>
    fst (read_json_file w (opt_str (environ w ''INPUT_SECRETS_FILE''))) = Inr secrets_json \<longrightarrow>
      length (filter is_replace (snd (main w))) = (if replace_secrets_flag w then 1 else 0) \<and>
      length (filter is_create (snd (main w))) = (if replace_secrets_flag w then 0 else 1))"
proof -
  have step: "calls_of (snd (deploy_secrets w node secrets_file False r)) =
                [if r then PutSecrets secrets_json else PostSecrets secrets_json]"
    if "supplied secrets_file" "fst (read_json_file w (opt_str secrets_file)) = Inr secrets_json"
    for r
    by (simp add: secrets_upload[OF that] calls_of_append split: sum.splits)
  have run: "length (filter is_replace (snd (main w))) = (if replace_secrets_flag w then 1 else 0) \<and>
      length (filter is_create (snd (main w))) = (if replace_secrets_flag w then 0 else 1)"
    if start: "fst (main_start w) = Inr node" and wet: "\<not> dry_run_flag w"
      and sf: "supplied (environ w ''INPUT_SECRETS_FILE'')"
      and js: "fst (read_json_file w (opt_str (environ w ''INPUT_SECRETS_FILE''))) = Inr secrets_json"
  proof -
    note after = main_after_start(2)[OF start]
    have s1: "filter is_replace (snd (secrets_step w node)) =
                (if replace_secrets_flag w then [Call (PutSecrets secrets_json)] else [])"
             "filter is_create (snd (secrets_step w node)) =
                (if replace_secrets_flag w then [] else [Call (PostSecrets secrets_json)])"
      using wet by (simp_all add: secrets_step_def secrets_upload[OF sf js] split: sum.splits)
    have rest: "filter is_replace (snd (variables_step w node)) = []"
               "filter is_create (snd (variables_step w node)) = []"
               "filter is_replace (snd (config_step w node)) = []"
               "filter is_create (snd (config_step w node)) = []"
               "filter is_replace (snd (main_start w)) = []"
               "filter is_create (snd (main_start w)) = []"
      by (simp_all add: variables_step_def config_step_def quiet_filter variables_quiet
            config_quiet start_quiet)
    show ?thesis
      by (simp add: after main_deploy_def snd_py_then s1 rest split: sum.splits abort.splits)
  qed
  from step[of True] step[of False] run show ?thesis by simp
qed

theorem secrets_create_or_replace_witness:
  "calls_of (snd (deploy_secrets ex_world ex_node (Some ''secrets.json'') False True)) =
     [PutSecrets (JObj [(''password'', JStr ''x'')])] \<and>
   calls_of (snd (deploy_secrets ex_world ex_node (Some ''secrets.json'') False False)) =
     [PostSecrets (JObj [(''password'', JStr ''x'')])] \<and>
   length (filter is_replace (snd (main ex_world))) = 0 \<and>
   length (filter is_create (snd (main ex_world))) = 1"
proof -
  let ?node = "projr (fst (main_start ex_world))"
  have sup: "supplied (Some ''secrets.json'')"
    by code_simp
  have js: "fst (read_json_file ex_world (opt_str (Some ''secrets.json''))) =
              Inr (JObj [(''password'', JStr ''x'')])"
    by code_simp
  have "\<not> isl (fst (main_start ex_world))"
    by code_simp
  then have start: "fst (main_start ex_world) = Inr ?node"
    by simp
  have wet: "\<not> dry_run_flag ex_world" and rep: "\<not> replace_secrets_flag ex_world"
    by code_simp+
  have env: "environ ex_world ''INPUT_SECRETS_FILE'' = Some ''secrets.json''"
    by code_simp
  from secrets_create_or_replace[where w=ex_world and node=ex_node
      and secrets_file="Some ''secrets.json''"
      and secrets_json="JObj [(''password'', JStr ''x'')]"] sup js
  have a: "calls_of (snd (deploy_secrets ex_world ex_node (Some ''secrets.json'') False True)) =
     [PutSecrets (JObj [(''password'', JStr ''x'')])] \<and>
   calls_of (snd (deploy_secrets ex_world ex_node (Some ''secrets.json'') False False)) =
     [PostSecrets (JObj [(''password'', JStr ''x'')])]"
    by blast
  from secrets_create_or_replace[where w=ex_world and node="?node"
      and secrets_file="Some ''secrets.json''"
      and secrets_json="JObj [(''password'', JStr ''x'')]"] start wet sup js env rep
  have b: "length (filter is_replace (snd (main ex_world))) = 0 \<and>
   length (filter is_create (snd (main ex_world))) = 1"
    by simp
  from a b show ?thesis by blast
qed

section \<open>Parse failures\<close>

lemma malformed_read:
  assumes "malformed w src"
  shows "supplied src" and "isl (fst (read_json_file w (opt_str src)))"
  using assms
  by (auto simp: malformed_def read_json_file_def py_raise_def py_return_def
      split: option.splits fs_node.splits sum.splits)

lemma malformed_steps:
  assumes "malformed w src"
  shows "isl (fst (deploy_secrets w n src d r))"
    and "snd (deploy_secrets w n src d r) =
           [Log INFO (''=> deploying secrets using file: '' @ opt_str src),
            Log INFO (''dry_run: '' @ str_bool d),
            Log INFO (''replace_secrets: '' @ str_bool r)]"
    and "isl (fst (deploy_variables w n src d))"
    and "snd (deploy_variables w n src d) =
           [Log INFO (''=> deploying variables using file: '' @ opt_str src),
            Log INFO (''dry_run: '' @ str_bool d)]"
  using malformed_read[OF assms]
  by (auto simp: deploy_secrets_def deploy_variables_def fst_py_bind fst_py_then snd_py_bind
        snd_py_then fst_simps snd_simps read_json_file_events
      split: sum.splits)

text \<open>
  Claim C9.  A run in which the secrets source or the variables source is a file with
  malformed JSON exits with code 1, whatever the dry-run flag; and under dry run the
  secrets step and the variables step raise on such a source without any call: the
  source is parsed before the flag is consulted.
\<close>

theorem parse_failure_under_dry_run:
  "(malformed w (environ w ''INPUT_SECRETS_FILE'') \<or>
    malformed w (environ w ''INPUT_VARIABLES_FILE'') \<longrightarrow> fst (main w) = 1) \<and>
   (malformed w src \<longrightarrow>
      isl (fst (deploy_secrets w node src True replace_secrets)) \<and>
      calls_of (snd (deploy_secrets w node src True replace_secrets)) = [] \<and>
      isl (fst (deploy_variables w node src True)) \<and>
      calls_of (snd (deploy_variables w node src True)) = [])"
proof -
  have run: "fst (main w) = 1"
    if bad: "malformed w (environ w ''INPUT_SECRETS_FILE'') \<or>
             malformed w (environ w ''INPUT_VARIABLES_FILE'')"
  proof (cases "fst (main_start w)")
    case (Inl a)
    then show ?thesis using main_failed_start(1)[of w] by simp
  next
    case (Inr n)
    have "isl (fst (main_deploy w n))"
    proof -
      have a: "isl (fst (main_deploy w n))" if "malformed w (environ w ''INPUT_SECRETS_FILE'')"
      proof -
        from malformed_steps(1)[OF that] have "isl (fst (secrets_step w n))"
          by (simp add: secrets_step_def)
        then show ?thesis
          by (cases "fst (secrets_step w n)") (simp_all add: main_deploy_def fst_py_then)
      qed
      have b: "isl (fst (main_deploy w n))" if "malformed w (environ w ''INPUT_VARIABLES_FILE'')"
      proof -
        from malformed_steps(3)[OF that] have "isl (fst (variables_step w n))"
          by (simp add: variables_step_def)
        then show ?thesis
          by (cases "fst (secrets_step w n)"; cases "fst (variables_step w n)")
             (simp_all add: main_deploy_def fst_py_then)
      qed
      from a b bad show ?thesis by blast
    qed
    then have "fst (main_deploy w n) \<noteq> Inr ()" by auto
    then show ?thesis by (simp add: main_after_start(1)[OF Inr])
  qed
  have step: "isl (fst (deploy_secrets w node src True replace_secrets)) \<and>
      calls_of (snd (deploy_secrets w node src True replace_secrets)) = [] \<and>
      isl (fst (deploy_variables w node src True)) \<and>
      calls_of (snd (deploy_variables w node src True)) = []"
    if "malformed w src"
    using malformed_steps[OF that] by simp
  from run step show ?thesis by blast
qed

theorem parse_failure_under_dry_run_witness:
  "dry_run_flag dry_malformed_world \<and>
   malformed dry_malformed_world (environ dry_malformed_world ''INPUT_VARIABLES_FILE'') \<and>
   fst (main dry_malformed_world) = 1 \<and>
   isl (fst (deploy_variables dry_malformed_world ex_node (Some ''bad.json'') True))"
proof -
  have dry: "dry_run_flag dry_malformed_world"
    by code_simp
  have bad: "malformed dry_malformed_world (environ dry_malformed_world ''INPUT_VARIABLES_FILE'')"
    by code_simp
  have bad': "malformed dry_malformed_world (Some ''bad.json'')"
    by code_simp
  from parse_failure_under_dry_run[where w=dry_malformed_world and src="Some ''bad.json''"
      and node=ex_node and replace_secrets=False] dry bad bad'
  show ?thesis by blast
qed

text \<open>
  Claim C7.  A run whose secrets source is a file with malformed JSON exits with code 1,
  attempts neither the variables step nor the config step and makes no mutating call;
  when the run reaches the deployment steps, the secrets step raises the parse error
  (\<^verbatim>\<open>ValueError\<close>, "Error decoding JSON in file ...") and that error is the last record
  of the run.
\<close>

theorem malformed_secrets_abort:
  assumes env: "environ w ''INPUT_SECRETS_FILE'' = Some f" and f: "f \<noteq> []"
    and src: "lookup w f = Some (File (Some text))"
    and bad: "json_loads w text = Inl msg"
  shows "fst (main w) = 1 \<and>
         \<not> step_attempted ''variables'' (snd (main w)) \<and>
         \<not> step_attempted ''config'' (snd (main w)) \<and>
         quiet is_mutating (snd (main w)) \<and>
         (\<forall>node. fst (main_start w) = Inr node \<longrightarrow>
            fst (secrets_step w node) =
              Inl (Raised (Exn ValueError
                (''Error decoding JSON in file '' @ quote f @ '': '' @ msg))) \<and>
            snd (main w) = snd (main_start w) @ snd (secrets_step w node) @
              [Log ERROR (''An error occurred: Error decoding JSON in file '' @ quote f
                          @ '': '' @ msg)])"
proof -
  have m: "malformed w (environ w ''INPUT_SECRETS_FILE'')"
    using env f src bad by (simp add: malformed_def supplied_def opt_str_def)
  have s1: "fst (secrets_step w n) =
              Inl (Raised (Exn ValueError
                (''Error decoding JSON in file '' @ quote f @ '': '' @ msg)))" for n
    using env f src bad
    by (simp add: secrets_step_def deploy_secrets_def supplied_def opt_str_def fst_py_bind
          fst_py_then fst_simps read_json_file_def py_raise_def)
  have s1t: "quiet is_mutating (snd (secrets_step w n))" for n
    by (simp add: secrets_step_def malformed_steps(2)[OF m] quiet_def)
  show ?thesis
  proof (cases "fst (main_start w)")
    case (Inl a)
    then have failed: "isl (fst (main_start w))" by simp
    note shape = main_failed_start(2)[OF failed]
    have "quiet (is_step_marker kind) (snd (main w))" for kind
      by (rule list_all_quiet[OF shape]) (auto dest: plain_log_not)
    moreover have "quiet is_mutating (snd (main w))"
      by (rule list_all_quiet[OF shape]) (auto dest: plain_log_not)
    ultimately show ?thesis
      using Inl main_failed_start(1)[OF failed] by (simp add: step_attempted_quiet)
  next
    case (Inr n)
    have d: "fst (main_deploy w n) =
               Inl (Raised (Exn ValueError
                 (''Error decoding JSON in file '' @ quote f @ '': '' @ msg)))"
            "snd (main_deploy w n) = snd (secrets_step w n)"
      by (simp_all add: main_deploy_def fst_py_then snd_py_then s1)
    have t: "snd (main w) = snd (main_start w) @ snd (secrets_step w n) @
              [Log ERROR (''An error occurred: Error decoding JSON in file '' @ quote f
                          @ '': '' @ msg)]"
      by (simp add: main_after_start(2)[OF Inr] d)
    have sq: "quiet (is_step_marker ''variables'') (snd (secrets_step w n))"
             "quiet (is_step_marker ''config'') (snd (secrets_step w n))"
      by (simp_all add: secrets_step_def secrets_quiet)
    have q: "quiet (is_step_marker ''variables'') (snd (main w))"
            "quiet (is_step_marker ''config'') (snd (main w))"
            "quiet is_mutating (snd (main w))"
      by (simp_all add: t quiet_append quiet_Cons quiet_Nil start_quiet s1t sq)
    show ?thesis
      using Inr q t s1 by (simp add: main_after_start(1)[OF Inr] d step_attempted_quiet)
  qed
qed

theorem malformed_secrets_abort_witness:
  "environ malformed_world ''INPUT_SECRETS_FILE'' = Some ''bad.json'' \<and>
   \<not> dry_run_flag malformed_world \<and>
   fst (main malformed_world) = 1 \<and>
   \<not> step_attempted ''variables'' (snd (main malformed_world)) \<and>
   \<not> step_attempted ''config'' (snd (main malformed_world)) \<and>
   last (snd (main malformed_world)) =
     Log ERROR (''An error occurred: Error decoding JSON in file '' @ quote ''bad.json''
                @ '': Expecting value'')"
proof -
  have env: "environ malformed_world ''INPUT_SECRETS_FILE'' = Some ''bad.json''"
    and src: "lookup malformed_world ''bad.json'' = Some (File (Some ''{''))"
    and bad: "json_loads malformed_world ''{'' = Inl ''Expecting value''"
    and wet: "\<not> dry_run_flag malformed_world"
    by code_simp+
  have f: "''bad.json'' \<noteq> []"
    by simp
  have "\<not> isl (fst (main_start malformed_world))"
    by code_simp
  then have start: "fst (main_start malformed_world) = Inr (projr (fst (main_start malformed_world)))"
    by simp
  from malformed_secrets_abort[OF env f src bad] start
  have "fst (main malformed_world) = 1 \<and>
   \<not> step_attempted ''variables'' (snd (main malformed_world)) \<and>
   \<not> step_attempted ''config'' (snd (main malformed_world)) \<and>
   last (snd (main malformed_world)) =
     Log ERROR (''An error occurred: Error decoding JSON in file '' @ quote ''bad.json''
                @ '': Expecting value'')"
    by auto
  with env wet show ?thesis by blast
qed

section \<open>Failures inside a step\<close>

lemma step_results:
  "no_exit (secrets_step w n)" "no_exit (variables_step w n)" "no_exit (config_step w n)"
  by (simp_all add: secrets_step_def variables_step_def config_step_def deploy_secrets_no_exit
        deploy_variables_no_exit deploy_config_no_exit)

lemma step_markers:
  "quiet (is_step_marker ''variables'') (snd (secrets_step w n))"
  "quiet (is_step_marker ''config'') (snd (secrets_step w n))"
  "quiet (is_step_marker ''config'') (snd (variables_step w n))"
  by (simp_all add: secrets_step_def variables_step_def secrets_quiet variables_quiet)

lemma error_log_marker: "\<not> is_step_marker kind (Log ERROR (''An error occurred: '' @ s))"
  by simp

text \<open>
  Claim C1, as amended.  In a run that reaches the deployment steps, the steps run in
  the order secrets, variables, config, and the first step that raises aborts the run:
  the exit code is 1, the run's events end with that step's events and the logged
  error, and no later step is attempted.  Only a step that returns is followed by the
  next one.  No step ends in \<^verbatim>\<open>SystemExit\<close>, so these cases are all there are.
\<close>

theorem first_failure_aborts:
  assumes start: "fst (main_start w) = Inr node"
  shows "(\<forall>e. fst (secrets_step w node) = Inl (Raised e) \<longrightarrow>
            main w = (1, snd (main_start w) @ snd (secrets_step w node) @
                         [Log ERROR (''An error occurred: '' @ exn_str e)]) \<and>
            \<not> step_attempted ''variables'' (snd (main w)) \<and>
            \<not> step_attempted ''config'' (snd (main w))) \<and>
         (\<forall>e. fst (secrets_step w node) = Inr () \<and>
              fst (variables_step w node) = Inl (Raised e) \<longrightarrow>
            main w = (1, snd (main_start w) @ snd (secrets_step w node) @
                         snd (variables_step w node) @
                         [Log ERROR (''An error occurred: '' @ exn_str e)]) \<and>
            \<not> step_attempted ''config'' (snd (main w))) \<and>
         (\<forall>e. fst (secrets_step w node) = Inr () \<and> fst (variables_step w node) = Inr () \<and>
              fst (config_step w node) = Inl (Raised e) \<longrightarrow>
            main w = (1, snd (main_start w) @ snd (secrets_step w node) @
                         snd (variables_step w node) @ snd (config_step w node) @
                         [Log ERROR (''An error occurred: '' @ exn_str e)])) \<and>
         (fst (secrets_step w node) = Inr () \<and> fst (variables_step w node) = Inr () \<and>
          fst (config_step w node) = Inr () \<longrightarrow>
            main w = (0, snd (main_start w) @ snd (secrets_step w node) @
                         snd (variables_step w node) @ snd (config_step w node))) \<and>
         no_exit (secrets_step w node) \<and> no_exit (variables_step w node) \<and>
         no_exit (config_step w node)"
proof -
  note after = main_after_start[OF start]
  have a: "main w = (1, snd (main_start w) @ snd (secrets_step w node) @
                         [Log ERROR (''An error occurred: '' @ exn_str e)]) \<and>
            \<not> step_attempted ''variables'' (snd (main w)) \<and>
            \<not> step_attempted ''config'' (snd (main w))"
    if "fst (secrets_step w node) = Inl (Raised e)" for e
  proof -
    from that have m: "main w = (1, snd (main_start w) @ snd (secrets_step w node) @
                         [Log ERROR (''An error occurred: '' @ exn_str e)])"
      by (simp add: prod_eq_iff after main_deploy_def fst_py_then snd_py_then)
    then show ?thesis
      by (simp add: step_attempted_quiet quiet_append quiet_Cons quiet_Nil start_quiet
            step_markers)
  qed
  have b: "main w = (1, snd (main_start w) @ snd (secrets_step w node) @
                         snd (variables_step w node) @
                         [Log ERROR (''An error occurred: '' @ exn_str e)]) \<and>
            \<not> step_attempted ''config'' (snd (main w))"
    if "fst (secrets_step w node) = Inr ()" "fst (variables_step w node) = Inl (Raised e)" for e
  proof -
    from that have m: "main w = (1, snd (main_start w) @ snd (secrets_step w node) @
                         snd (variables_step w node) @
                         [Log ERROR (''An error occurred: '' @ exn_str e)])"
      by (simp add: prod_eq_iff after main_deploy_def fst_py_then snd_py_then)
    then show ?thesis
      by (simp add: step_attempted_quiet quiet_append quiet_Cons quiet_Nil start_quiet
            step_markers)
  qed
  have c: "main w = (1, snd (main_start w) @ snd (secrets_step w node) @
                         snd (variables_step w node) @ snd (config_step w node) @
                         [Log ERROR (''An error occurred: '' @ exn_str e)])"
    if "fst (secrets_step w node) = Inr ()" "fst (variables_step w node) = Inr ()"
       "fst (config_step w node) = Inl (Raised e)" for e
    using that by (simp add: prod_eq_iff after main_deploy_def fst_py_then snd_py_then)
  have d: "main w = (0, snd (main_start w) @ snd (secrets_step w node) @
                         snd (variables_step w node) @ snd (config_step w node))"
    if "fst (secrets_step w node) = Inr ()" "fst (variables_step w node) = Inr ()"
       "fst (config_step w node) = Inr ()"
    using that by (simp add: prod_eq_iff after main_deploy_def fst_py_then snd_py_then)
  from a b c d step_results[of w node] show ?thesis by blast
qed

theorem first_failure_aborts_witness:
  "fst (secrets_step refusing_world (projr (fst (main_start refusing_world)))) =
     Inl (Raised (Exn OtherException ''secret already exists'')) \<and>
   fst (main refusing_world) = 1 \<and>
   \<not> step_attempted ''variables'' (snd (main refusing_world)) \<and>
   \<not> step_attempted ''config'' (snd (main refusing_world))"
proof -
  let ?node = "projr (fst (main_start refusing_world))"
  have "\<not> isl (fst (main_start refusing_world))"
    by code_simp
  then have start: "fst (main_start refusing_world) = Inr ?node"
    by simp
  have failure: "fst (secrets_step refusing_world ?node) =
     Inl (Raised (Exn OtherException ''secret already exists''))"
    by code_simp
  from first_failure_aborts[OF start] failure
  have m: "main refusing_world =
          (1, snd (main_start refusing_world) @ snd (secrets_step refusing_world ?node) @
              [Log ERROR (''An error occurred: '' @
                 exn_str (Exn OtherException ''secret already exists''))])"
    and v: "\<not> step_attempted ''variables'' (snd (main refusing_world))"
    and c: "\<not> step_attempted ''config'' (snd (main refusing_world))"
    by blast+
  from m have "fst (main refusing_world) = 1"
    by simp
  with failure v c show ?thesis by blast
qed

text \<open>
  Claim C1 as stated fails: the node is healthy and both files parse, the node refuses
  the secrets upload, and the run ends there with exit code 1; neither the variables
  step nor the config step is attempted.
\<close>

theorem upload_error_counterexample:
  "\<not> isl (fst (main_start refusing_world)) \<and>
   fst (read_json_file refusing_world ''secrets.json'') = Inr (JObj [(''password'', JStr ''x'')]) \<and>
   fst (read_json_file refusing_world ''vars.json'') = Inr (JObj [(''env'', JStr ''prod'')]) \<and>
   environ refusing_world ''INPUT_VARIABLES_FILE'' = Some ''vars.json'' \<and>
   environ refusing_world ''INPUT_CONFIG_FOLDER'' = Some ''cfg'' \<and>
   calls_of (snd (main refusing_world)) =
     [GetHealth, PostSecrets (JObj [(''password'', JStr ''x'')])] \<and>
   last (snd (main refusing_world)) = Log ERROR ''An error occurred: secret already exists'' \<and>
   fst (main refusing_world) = 1 \<and>
   \<not> step_attempted ''variables'' (snd (main refusing_world)) \<and>
   \<not> step_attempted ''config'' (snd (main refusing_world))"
  by code_simp

text \<open>
  Claim C2, evaluated where the code departs from it.  The configuration folder holds a
  file that cannot be read: \<^verbatim>\<open>create_zipped_config\<close> logs the error and returns
  \<open>None\<close>.  With dry run off, \<^verbatim>\<open>deploy_config\<close> passes that \<open>None\<close> to \<^verbatim>\<open>open\<close>, which
  raises \<^verbatim>\<open>TypeError\<close>, and the run exits with 1 through the general handler; with dry
  run on, the step goes on to report the dry run and returns normally.
\<close>

theorem failed_packaging_is_read:
  "fst (create_zipped_config unreadable_world ''cfg'' ''config.zip'' False) = Inr None \<and>
   deploy_config unreadable_world ex_node (Some ''cfg'') False False False =
     (Inl (Raised (Exn TypeError ''expected str, bytes or os.PathLike object, not NoneType'')),
      [Log INFO ''=> deploying config using folder: cfg'',
       Log INFO ''dry_run: False'',
       Log INFO ''use_whitelist: False'',
       Log INFO ''force_config: False'',
       Log ERROR (''An error occurred while creating the zip file: ''
                  @ ''[Errno 13] Permission denied: '' @ quote ''cfg/pipes/a.conf.json'')]) \<and>
   fst (main unreadable_world) = 1 \<and>
   last (snd (main unreadable_world)) =
     Log ERROR ''An error occurred: expected str, bytes or os.PathLike object, not NoneType'' \<and>
   deploy_config unreadable_world ex_node (Some ''cfg'') True False False =
     (Inr (),
      [Log INFO ''=> deploying config using folder: cfg'',
       Log INFO ''dry_run: True'',
       Log INFO ''use_whitelist: False'',
       Log INFO ''force_config: False'',
       Log ERROR (''An error occurred while creating the zip file: ''
                  @ ''[Errno 13] Permission denied: '' @ quote ''cfg/pipes/a.conf.json''),
       Log INFO ''result: dry run enabled. No config deployed to the Sesam node.''])"
  by code_simp

end
